theory Spec2Isabelle
  imports Complex_Main
begin

section \<open>Numbers, errors and library operations\<close>

text \<open>
  The simulator computes with Python and NumPy floating-point numbers. A finite float
  is modelled by the real number it stands for; rounding and overflow are not modelled.
  A NumPy result that is not a finite number (NaN) is \<open>None\<close>. NumPy arithmetic
  propagates NaN, and every comparison with NaN is false.
\<close>

type_synonym npfloat = "real option"

datatype error = IndexError | ValueError | TypeError | ZeroDivisionError | OutOfBoundsDatetime

text \<open>
  The sign of a zero is visible in one place: the normal sampler rejects a scale whose
  sign bit is set, and so rejects \<open>-0.0\<close>. A float whose sign is kept is a
  \<open>pyfloat\<close>: \<open>Float x\<close> is the float standing for the real \<open>x\<close> (\<open>Float 0\<close> is
  \<open>+0.0\<close>) and \<open>NegZero\<close> is \<open>-0.0\<close>. Dividing by a positive number keeps the sign.
\<close>

datatype pyfloat = Float real | NegZero

definition float_value :: "pyfloat \<Rightarrow> real" where
  "float_value f = (case f of Float x \<Rightarrow> x | NegZero \<Rightarrow> 0)"

definition signbit :: "pyfloat \<Rightarrow> bool" where
  "signbit f = (case f of Float x \<Rightarrow> x < 0 | NegZero \<Rightarrow> True)"

definition fdiv_pos :: "pyfloat \<Rightarrow> real \<Rightarrow> pyfloat" where
  "fdiv_pos f d = (case f of Float x \<Rightarrow> Float (x / d) | NegZero \<Rightarrow> NegZero)"

text \<open>
  The value a number field of the page delivers: nothing when the field is empty, a
  Python int for a whole number, a Python float otherwise.
\<close>

datatype pyval = NoValue | IntValue int | FloatValue pyfloat

definition as_real :: "pyval \<Rightarrow> real option" where
  "as_real v = (case v of NoValue \<Rightarrow> None | IntValue n \<Rightarrow> Some (real_of_int n)
                | FloatValue f \<Rightarrow> Some (float_value f))"

text \<open>
  \<open>v / 100\<close>: a TypeError for \<open>None\<close>, a float otherwise.
\<close>

definition truediv_100 :: "pyval \<Rightarrow> error + pyfloat" where
  "truediv_100 v = (case v of NoValue \<Rightarrow> Inl TypeError
                    | IntValue n \<Rightarrow> Inr (Float (real_of_int n / 100))
                    | FloatValue f \<Rightarrow> Inr (fdiv_pos f 100))"

text \<open>
  \<open>range(v)\<close>: the indices below a Python int (none when it is zero or less), a
  TypeError for \<open>None\<close> and for a float.
\<close>

definition py_range :: "pyval \<Rightarrow> error + nat list" where
  "py_range v = (case v of IntValue n \<Rightarrow> Inr [0..<nat n] | _ \<Rightarrow> Inl TypeError)"

definition fadd :: "npfloat \<Rightarrow> npfloat \<Rightarrow> npfloat" where
  "fadd a b = (case a of None \<Rightarrow> None
               | Some x \<Rightarrow> (case b of None \<Rightarrow> None | Some y \<Rightarrow> Some (x + y)))"

definition fsub :: "npfloat \<Rightarrow> npfloat \<Rightarrow> npfloat" where
  "fsub a b = (case a of None \<Rightarrow> None
               | Some x \<Rightarrow> (case b of None \<Rightarrow> None | Some y \<Rightarrow> Some (x - y)))"

definition fmul :: "npfloat \<Rightarrow> npfloat \<Rightarrow> npfloat" where
  "fmul a b = (case a of None \<Rightarrow> None
               | Some x \<Rightarrow> (case b of None \<Rightarrow> None | Some y \<Rightarrow> Some (x * y)))"

definition fge0 :: "npfloat \<Rightarrow> bool" where
  "fge0 a = (case a of None \<Rightarrow> False | Some x \<Rightarrow> 0 \<le> x)"

text \<open>
  NumPy's \<open>x ** y\<close> on float64 operands (the power of a Series, and of the
  \<open>np.float64\<close> that \<open>np.prod\<close> returns): anything to the power 0 is 1, a negative
  base with an exponent that is not a whole number gives NaN (with a warning, no
  exception), and 0 to a negative power is infinite, which the model also writes
  \<open>None\<close>.
\<close>

definition np_power :: "real \<Rightarrow> real \<Rightarrow> npfloat" where
  "np_power x y =
     (if y = 0 then Some 1
      else if 0 < x then Some (x powr y)
      else if x = 0 then (if 0 < y then Some 0 else None)
      else if y = of_int \<lfloor>y\<rfloor> then Some (x powi \<lfloor>y\<rfloor>)
      else None)"

text \<open>
  Python's own \<open>x ** (1/12)\<close> on two floats returns a float for \<open>x \<ge> 0\<close> and a
  complex number for \<open>x < 0\<close>.
\<close>

datatype pynum = PyFloat real | PyComplex

text \<open>
  \<open>np.random.normal(loc, scale, size)\<close> is \<open>loc + scale * z\<close> for standard normal
  variates \<open>z\<close>; the variates of one call are the explicit argument \<open>zs\<close>. A complex
  \<open>loc\<close> is rejected with a TypeError, and then a \<open>scale\<close> whose sign bit is set (a
  negative one, or \<open>-0.0\<close>) with a ValueError.
\<close>

definition np_random_normal :: "pynum \<Rightarrow> pyfloat \<Rightarrow> nat \<Rightarrow> (nat \<Rightarrow> real) \<Rightarrow> error + real list" where
  "np_random_normal loc scale n zs =
     (case loc of
        PyComplex \<Rightarrow> Inl TypeError
      | PyFloat m \<Rightarrow>
          if signbit scale then Inl ValueError
          else Inr (map (\<lambda>k. m + float_value scale * zs k) [0..<n]))"

section \<open>The portfolio loop of app.py\<close>

definition flat_interest_rate :: real where
  "flat_interest_rate = 0.05"

text \<open>
  The loop of \<open>generate_simulation\<close> over \<open>range(len(df))\<close>. The state is
  \<open>current_portfolio\<close> and the column \<open>Portfolio_Value\<close>, which is written by position.
  The two branches of \<open>if i == 0\<close> are kept as the source has them.
\<close>

fun portfolio_loop ::
  "npfloat list \<Rightarrow> real list \<Rightarrow> nat list \<Rightarrow> npfloat \<times> npfloat list \<Rightarrow> npfloat \<times> npfloat list" where
  "portfolio_loop investment rets [] st = st"
| "portfolio_loop investment rets (i # rest) (current_portfolio, pv) =
     (if i = 0 then
        (let portfolio_with_investment = fadd current_portfolio (investment ! i);
             pv' = (if fge0 portfolio_with_investment
                    then pv[i := fmul portfolio_with_investment (Some (1 + rets ! i))]
                    else pv[i := fmul portfolio_with_investment (Some (1 + flat_interest_rate / 12))])
         in portfolio_loop investment rets rest (pv' ! i, pv'))
      else
        (let portfolio_with_investment = fadd current_portfolio (investment ! i);
             current_portfolio' =
               (if fge0 portfolio_with_investment
                then fmul portfolio_with_investment (Some (1 + rets ! i))
                else fmul portfolio_with_investment (Some (1 + flat_interest_rate / 12)))
         in portfolio_loop investment rets rest (current_portfolio', pv[i := current_portfolio'])))"

text \<open>
  The column starts as \<open>0.0\<close> in every row; the loop runs over all rows.
\<close>

definition portfolio_values :: "real \<Rightarrow> npfloat list \<Rightarrow> real list \<Rightarrow> npfloat list" where
  "portfolio_values initial_investment investment rets =
     snd (portfolio_loop investment rets [0..<length investment]
            (Some initial_investment, replicate (length investment) (Some 0)))"

text \<open>
  The update rule in the words of the specification: the contribution is added first,
  then the month's return is applied, or the flat rate when the sum is negative.
\<close>

definition spec_update_rule :: "npfloat \<Rightarrow> npfloat \<Rightarrow> real \<Rightarrow> npfloat" where
  "spec_update_rule prior_balance net_contribution r =
     (let pre_value = fadd prior_balance net_contribution
      in if fge0 pre_value then fmul pre_value (Some (1 + r))
         else fmul pre_value (Some (1 + 0.05 / 12)))"

fun spec_rule_value :: "real \<Rightarrow> npfloat list \<Rightarrow> real list \<Rightarrow> nat \<Rightarrow> npfloat" where
  "spec_rule_value init investment rets 0 = spec_update_rule (Some init) (investment ! 0) (rets ! 0)"
| "spec_rule_value init investment rets (Suc i) =
     spec_update_rule (spec_rule_value init investment rets i) (investment ! Suc i) (rets ! Suc i)"

section \<open>The portfolio loop of plan.py\<close>

text \<open>
  The script variant has no flat-interest branch. Its first month adds the investment
  and then applies the return; its later months apply the return to the running balance
  and then add the investment. The running balance starts at the literal 50000.
\<close>

fun plan_portfolio_loop ::
  "npfloat list \<Rightarrow> real list \<Rightarrow> nat list \<Rightarrow> npfloat \<times> npfloat list \<Rightarrow> npfloat \<times> npfloat list" where
  "plan_portfolio_loop investment rets [] st = st"
| "plan_portfolio_loop investment rets (i # rest) (current_portfolio, pv) =
     (if i = 0 then
        (let pv' = pv[i := fmul (fadd current_portfolio (investment ! i)) (Some (1 + rets ! i))]
         in plan_portfolio_loop investment rets rest (pv' ! i, pv'))
      else
        (let current_portfolio' =
               fadd (fmul current_portfolio (Some (1 + rets ! i))) (investment ! i)
         in plan_portfolio_loop investment rets rest (current_portfolio', pv[i := current_portfolio'])))"

definition plan_portfolio_values :: "npfloat list \<Rightarrow> real list \<Rightarrow> npfloat list" where
  "plan_portfolio_values investment rets =
     snd (plan_portfolio_loop investment rets [0..<length investment]
            (Some 50000, replicate (length investment) (Some 0)))"

section \<open>Trailing annualized returns\<close>

text \<open>
  The Python slice \<open>xs[a:b]\<close> for \<open>0 \<le> a \<le> b\<close>.
\<close>

definition slice :: "'a list \<Rightarrow> nat \<Rightarrow> nat \<Rightarrow> 'a list" where
  "slice xs a b = take (b - a) (drop a xs)"

text \<open>
  \<open>calculate_trailing_return\<close> of app.py. The loop appends one entry per index.
  With \<open>window = 0\<close> no index is below the window and \<open>12/window\<close> raises
  ZeroDivisionError at the first index.
\<close>

fun trailing_loop :: "real list \<Rightarrow> nat \<Rightarrow> nat list \<Rightarrow> npfloat list \<Rightarrow> error + npfloat list" where
  "trailing_loop returns window [] trailing_returns = Inr trailing_returns"
| "trailing_loop returns window (i # rest) trailing_returns =
     (if i < window then trailing_loop returns window rest (trailing_returns @ [None])
      else if window = 0 then Inl ZeroDivisionError
      else
        (let window_returns = slice returns (i - window) i;
             cumulative_return = prod_list (map (\<lambda>r. 1 + r) window_returns) - 1;
             annualized_return =
               fsub (np_power (1 + cumulative_return) (12 / real window)) (Some 1)
         in trailing_loop returns window rest (trailing_returns @ [annualized_return])))"

definition calculate_trailing_return :: "real list \<Rightarrow> nat \<Rightarrow> error + npfloat list" where
  "calculate_trailing_return returns window =
     trailing_loop returns window [0..<length returns] []"

text \<open>
  \<open>calculate_trailing_return\<close> of plan.py: the base of the power is one plus the
  product of the window, and the default window is 36 (the script calls it with 24).
\<close>

fun plan_trailing_loop :: "real list \<Rightarrow> nat \<Rightarrow> nat list \<Rightarrow> npfloat list \<Rightarrow> error + npfloat list" where
  "plan_trailing_loop returns window [] trailing_returns = Inr trailing_returns"
| "plan_trailing_loop returns window (i # rest) trailing_returns =
     (if i < window then plan_trailing_loop returns window rest (trailing_returns @ [None])
      else if window = 0 then Inl ZeroDivisionError
      else
        (let window_returns = slice returns (i - window) i;
             annualized_return =
               fsub (np_power (1 + prod_list (map (\<lambda>r. 1 + r) window_returns)) (12 / real window))
                 (Some 1)
         in plan_trailing_loop returns window rest (trailing_returns @ [annualized_return])))"

definition plan_calculate_trailing_return :: "real list \<Rightarrow> nat \<Rightarrow> error + npfloat list" where
  "plan_calculate_trailing_return returns window =
     plan_trailing_loop returns window [0..<length returns] []"

text \<open>
  The annualized trailing return in the words of the specification, from the
  returns of the \<open>window\<close> months strictly before month \<open>i\<close>.
\<close>

definition spec_annualized_return :: "real list \<Rightarrow> nat \<Rightarrow> nat \<Rightarrow> npfloat" where
  "spec_annualized_return returns window i =
     (let cumulative_return = (\<Prod>k = i - window..<i. 1 + returns ! k) - 1
      in fsub (np_power (1 + cumulative_return) (12 / real window)) (Some 1))"

section \<open>The month index and the cash-flow columns\<close>

text \<open>
  \<open>pd.date_range(start='2025-01-01', periods=n, freq='ME')\<close> is the month ends from
  2025-01-31 on. \<open>month_end_days k\<close> is the number of days from the first of them to
  the \<open>k\<close>-th, which is what \<open>(df.index - df.index[0]).days\<close> holds.
\<close>

definition is_leap_year :: "nat \<Rightarrow> bool" where
  "is_leap_year y = (y mod 4 = 0 \<and> (y mod 100 \<noteq> 0 \<or> y mod 400 = 0))"

definition days_in_month :: "nat \<Rightarrow> nat \<Rightarrow> nat" where
  "days_in_month y m =
     (if m = 2 then (if is_leap_year y then 29 else 28)
      else if m = 4 \<or> m = 6 \<or> m = 9 \<or> m = 11 then 30
      else 31)"

fun month_end_days :: "nat \<Rightarrow> nat" where
  "month_end_days 0 = 0"
| "month_end_days (Suc k) =
     month_end_days k + days_in_month (2025 + Suc k div 12) (Suc k mod 12 + 1)"

text \<open>
  The parameter dictionary with a number in every entry. The ages may be fractional.
  The volatility keeps its sign.
\<close>

record params =
  starting_age :: real
  retirement_age :: real
  monthly_income :: real
  monthly_expenses :: real
  annual_return_rate :: real
  annual_volatility :: pyfloat
  inflation_rate :: real
  initial_investment :: real
  num_simulations :: int

record dataframe =
  Age :: "real list"
  Monthly_Income :: "npfloat list"
  Monthly_Expenses :: "npfloat list"
  Monthly_Investment :: "npfloat list"
  Portfolio_Value :: "npfloat list"

definition num_months :: "params \<Rightarrow> real" where
  "num_months p = (retirement_age p - starting_age p) * 12"

text \<open>
  The month index of \<open>num_months\<close> periods, as its length. pandas 2 cuts a fractional
  count down to a whole number (with a warning). With a count of zero or less there is
  no first month: the index is empty (or pandas refuses the negative count) and
  \<open>df.index[0]\<close> raises; the model writes IndexError for this. The last month end
  that a pandas 2 timestamp can hold is 2262-03-31, the 2847th; a longer index raises,
  which the model writes as OutOfBoundsDatetime.
\<close>

definition month_index :: "real \<Rightarrow> error + nat" where
  "month_index months =
     (if months < 1 then Inl IndexError
      else if 2847 < \<lfloor>months\<rfloor> then Inl OutOfBoundsDatetime
      else Inr (nat \<lfloor>months\<rfloor>))"

definition age_column :: "params \<Rightarrow> nat \<Rightarrow> real list" where
  "age_column p n =
     map (\<lambda>k. starting_age p + real (month_end_days k) / 365.25) [0..<n]"

text \<open>
  \<open>base * (1 + inflation_rate) ** (df['Age'] - starting_age)\<close>, row by row.
\<close>

definition inflated :: "params \<Rightarrow> real \<Rightarrow> real list \<Rightarrow> npfloat list" where
  "inflated p base ages =
     map (\<lambda>a. fmul (Some base) (np_power (1 + inflation_rate p) (a - starting_age p))) ages"

definition monthly_volatility :: "params \<Rightarrow> pyfloat" where
  "monthly_volatility p = fdiv_pos (annual_volatility p) (sqrt 12)"

text \<open>
  \<open>(1 + annual_return_rate) ** (1/12) - 1\<close> on Python floats: complex when the base
  is negative.
\<close>

definition monthly_expected_return :: "params \<Rightarrow> pynum" where
  "monthly_expected_return p =
     (if 0 \<le> 1 + annual_return_rate p
      then PyFloat ((1 + annual_return_rate p) powr (1 / 12) - 1)
      else PyComplex)"

definition monthly_returns :: "params \<Rightarrow> nat \<Rightarrow> (nat \<Rightarrow> real) \<Rightarrow> error + real list" where
  "monthly_returns p n zs =
     np_random_normal (monthly_expected_return p) (monthly_volatility p) n zs"

section \<open>generate_simulation and the batch of app.py\<close>

text \<open>
  One simulated path, for a dictionary of numbers. The month index is built first.
  Then the cash-flow columns are computed, then the returns are drawn (where the
  sampler may reject its arguments), then the portfolio loop and the trailing returns
  (default window 24) run. \<open>zs\<close> are the standard normal variates of this run.
\<close>

definition generate_simulation :: "params \<Rightarrow> (nat \<Rightarrow> real) \<Rightarrow> error + dataframe \<times> npfloat list" where
  "generate_simulation p zs =
     (case month_index (num_months p) of
        Inl e \<Rightarrow> Inl e
      | Inr n \<Rightarrow>
        (let ages = age_column p n;
             income = inflated p (monthly_income p) ages;
             expenses = inflated p (monthly_expenses p) ages;
             investment = map (\<lambda>(a, b). fsub a b) (zip income expenses)
         in case monthly_returns p n zs of
              Inl e \<Rightarrow> Inl e
            | Inr rets \<Rightarrow>
                (let pv = portfolio_values (initial_investment p) investment rets
                 in case calculate_trailing_return rets 24 of
                      Inl e \<Rightarrow> Inl e
                    | Inr trailing_returns \<Rightarrow>
                        Inr (\<lparr>Age = ages, Monthly_Income = income, Monthly_Expenses = expenses,
                              Monthly_Investment = investment, Portfolio_Value = pv\<rparr>,
                             trailing_returns))))"

text \<open>
  The dictionary as \<open>update_graph\<close> builds it: the three rates are floats (they have
  been divided by 100), every other entry is what its field delivered and may be
  \<open>None\<close>.
\<close>

record param_dict =
  starting_age_value :: pyval
  retirement_age_value :: pyval
  monthly_income_value :: pyval
  monthly_expenses_value :: pyval
  annual_return_rate_value :: real
  annual_volatility_value :: pyfloat
  inflation_rate_value :: real
  initial_investment_value :: pyval
  num_simulations_value :: pyval

text \<open>
  The dictionary with a number for every entry that \<open>generate_simulation\<close> reads;
  \<open>ii\<close> stands for the initial investment.
\<close>

definition numbers_of :: "param_dict \<Rightarrow> real \<Rightarrow> real \<Rightarrow> real \<Rightarrow> real \<Rightarrow> real \<Rightarrow> params" where
  "numbers_of d sa ra mi me ii =
     \<lparr>starting_age = sa, retirement_age = ra, monthly_income = mi, monthly_expenses = me,
      annual_return_rate = annual_return_rate_value d,
      annual_volatility = annual_volatility_value d,
      inflation_rate = inflation_rate_value d,
      initial_investment = ii,
      num_simulations = (case num_simulations_value d of IntValue n \<Rightarrow> n | _ \<Rightarrow> 0)\<rparr>"

text \<open>
  \<open>generate_simulation\<close> on that dictionary. An entry that is \<open>None\<close> raises a
  TypeError where the source first computes with it: the ages in \<open>num_months\<close>,
  before the month index; income and expenses in their columns, after the month index
  and before the returns are drawn; the initial investment in the first month of the
  portfolio loop, after the returns are drawn. With numbers everywhere the run is the
  one above.
\<close>

definition generate_simulation_dict ::
  "param_dict \<Rightarrow> (nat \<Rightarrow> real) \<Rightarrow> error + dataframe \<times> npfloat list" where
  "generate_simulation_dict d zs =
     (case as_real (starting_age_value d) of None \<Rightarrow> Inl TypeError | Some sa \<Rightarrow>
      case as_real (retirement_age_value d) of None \<Rightarrow> Inl TypeError | Some ra \<Rightarrow>
      case month_index ((ra - sa) * 12) of Inl e \<Rightarrow> Inl e | Inr n \<Rightarrow>
      case as_real (monthly_income_value d) of None \<Rightarrow> Inl TypeError | Some mi \<Rightarrow>
      case as_real (monthly_expenses_value d) of None \<Rightarrow> Inl TypeError | Some me \<Rightarrow>
      case as_real (initial_investment_value d) of
        None \<Rightarrow>
          (case monthly_returns (numbers_of d sa ra mi me 0) n zs of
             Inl e \<Rightarrow> Inl e
           | Inr rets \<Rightarrow> Inl TypeError)
      | Some ii \<Rightarrow> generate_simulation (numbers_of d sa ra mi me ii) zs)"

text \<open>
  The loop of \<open>update_graph\<close> that fills the batch: run \<open>k\<close> draws its own variates
  \<open>zss k\<close>, and the first run that raises ends the callback.
\<close>

fun simulation_runs ::
  "param_dict \<Rightarrow> (nat \<Rightarrow> nat \<Rightarrow> real) \<Rightarrow> nat list \<Rightarrow> (dataframe \<times> npfloat list) list
   \<Rightarrow> error + (dataframe \<times> npfloat list) list" where
  "simulation_runs d zss [] batch = Inr batch"
| "simulation_runs d zss (k # rest) batch =
     (case generate_simulation_dict d (zss k) of
        Inl e \<Rightarrow> Inl e
      | Inr r \<Rightarrow> simulation_runs d zss rest (batch @ [r]))"

datatype callback_output = Placeholder | Rendered "(dataframe \<times> npfloat list) list"

text \<open>
  \<open>update_graph\<close> up to the batch it renders. Before the first click it returns the
  placeholder without looking at the inputs. Then the three percentages are divided by
  100, in the order return, volatility, inflation, the dictionary is built, and the
  runs are made. The figure and the statistics are presentation; of them the model
  keeps only that an empty batch makes them raise, which it writes as IndexError
  (\<open>all_simulations[-1]\<close> at the latest).
\<close>

definition update_graph ::
  "int \<Rightarrow> pyval \<Rightarrow> pyval \<Rightarrow> pyval \<Rightarrow> pyval \<Rightarrow> pyval \<Rightarrow> pyval \<Rightarrow> pyval \<Rightarrow> pyval \<Rightarrow> pyval
   \<Rightarrow> (nat \<Rightarrow> nat \<Rightarrow> real) \<Rightarrow> error + callback_output" where
  "update_graph n_clicks starting_age' retirement_age' monthly_income' monthly_expenses'
     annual_return annual_volatility' inflation_rate' initial_investment' num_simulations' zss =
     (if n_clicks = 0 then Inr Placeholder
      else
        case truediv_100 annual_return of Inl e \<Rightarrow> Inl e | Inr annual_return'' \<Rightarrow>
        case truediv_100 annual_volatility' of Inl e \<Rightarrow> Inl e | Inr annual_volatility'' \<Rightarrow>
        case truediv_100 inflation_rate' of Inl e \<Rightarrow> Inl e | Inr inflation_rate'' \<Rightarrow>
        (let d = \<lparr>starting_age_value = starting_age', retirement_age_value = retirement_age',
                  monthly_income_value = monthly_income',
                  monthly_expenses_value = monthly_expenses',
                  annual_return_rate_value = float_value annual_return'',
                  annual_volatility_value = annual_volatility'',
                  inflation_rate_value = float_value inflation_rate'',
                  initial_investment_value = initial_investment',
                  num_simulations_value = num_simulations'\<rparr>
         in case py_range (num_simulations_value d) of
              Inl e \<Rightarrow> Inl e
            | Inr runs \<Rightarrow>
                (case simulation_runs d zss runs [] of
                   Inl e \<Rightarrow> Inl e
                 | Inr batch \<Rightarrow> if batch = [] then Inl IndexError else Inr (Rendered batch))))"

text \<open>
  \<open>get_default_params\<close> of app.py, and the parameters of the worked example of the
  specification (two years, no inflation, no return, no volatility).
\<close>

definition get_default_params :: params where
  "get_default_params =
     \<lparr>starting_age = 24, retirement_age = 65, monthly_income = 5000, monthly_expenses = 3500,
      annual_return_rate = 0.07, annual_volatility = Float 0.15, inflation_rate = 0.03,
      initial_investment = 50000, num_simulations = 100\<rparr>"

definition example_params :: params where
  "example_params =
     \<lparr>starting_age = 24, retirement_age = 26, monthly_income = 5000, monthly_expenses = 3500,
      annual_return_rate = 0, annual_volatility = Float 0, inflation_rate = 0,
      initial_investment = 50000, num_simulations = 1\<rparr>"

text \<open>
  The parameters that plan.py sets at module level (the same numbers), and its column
  \<open>Monthly_Investment\<close>: income minus expenses over its 492 months, computed as in
  app.py.
\<close>

definition plan_params :: params where
  "plan_params =
     \<lparr>starting_age = 24, retirement_age = 65, monthly_income = 5000, monthly_expenses = 3500,
      annual_return_rate = 0.07, annual_volatility = Float 0.15, inflation_rate = 0.03,
      initial_investment = 50000, num_simulations = 100\<rparr>"

definition plan_monthly_investment :: "npfloat list" where
  "plan_monthly_investment =
     (let ages = age_column plan_params (nat \<lfloor>num_months plan_params\<rfloor>);
          income = inflated plan_params (monthly_income plan_params) ages;
          expenses = inflated plan_params (monthly_expenses plan_params) ages
      in map (\<lambda>(a, b). fsub a b) (zip income expenses))"



section \<open>Crash injection of plan.py\<close>

record crash_config =
  crash_probability :: real
  crash_return :: real
  crash_recovery_months :: nat

text \<open>
  The inner loop \<open>for j in range(1, recovery_months)\<close> of crash month \<open>i\<close>. Each
  recovery month draws one variate from the generator: \<open>ws\<close> is the stream of standard
  normal variates and the counter in the state says how many are used. \<open>mer\<close> and
  \<open>mv\<close> are the script's \<open>monthly_expected_return\<close> and \<open>monthly_volatility\<close>. The
  series has \<open>len(df)\<close> entries.
\<close>

fun recovery_loop ::
  "(nat \<Rightarrow> real) \<Rightarrow> real \<Rightarrow> real \<Rightarrow> nat \<Rightarrow> nat \<Rightarrow> nat list \<Rightarrow> real list \<times> nat \<Rightarrow> real list \<times> nat" where
  "recovery_loop ws mer mv i recovery_months [] st = st"
| "recovery_loop ws mer mv i recovery_months (j # js) (rets, used) =
     (if i + j < length rets then
        recovery_loop ws mer mv i recovery_months js
          (rets[i + j := mer * (real j / real recovery_months) + mv * 1.5 * ws used], Suc used)
      else recovery_loop ws mer mv i recovery_months js (rets, used))"

text \<open>
  The body of the outer loop for month \<open>i\<close>.
\<close>

definition crash_month ::
  "(nat \<Rightarrow> real) \<Rightarrow> crash_config \<Rightarrow> real \<Rightarrow> real \<Rightarrow> bool list \<Rightarrow> nat \<Rightarrow> real list \<times> nat \<Rightarrow> real list \<times> nat" where
  "crash_month ws cfg mer mv crash_months i st =
     (if crash_months ! i then
        (let rets = (fst st)[i := crash_return cfg];
             recovery_months = min (crash_recovery_months cfg) (length rets - i)
         in recovery_loop ws mer mv i recovery_months [1..<recovery_months] (rets, snd st))
      else st)"

fun crash_loop ::
  "(nat \<Rightarrow> real) \<Rightarrow> crash_config \<Rightarrow> real \<Rightarrow> real \<Rightarrow> bool list \<Rightarrow> nat list \<Rightarrow> real list \<times> nat \<Rightarrow> real list \<times> nat" where
  "crash_loop ws cfg mer mv crash_months [] st = st"
| "crash_loop ws cfg mer mv crash_months (i # rest) st =
     crash_loop ws cfg mer mv crash_months rest (crash_month ws cfg mer mv crash_months i st)"

text \<open>
  The crash parameters that plan.py sets at module level.
\<close>

definition plan_crash_config :: crash_config where
  "plan_crash_config =
     \<lparr>crash_probability = 0.02, crash_return = - 0.20, crash_recovery_months = 12\<rparr>"

text \<open>
  The return series of one plan.py run: the base draws, the crash flags from the
  uniform variates \<open>us\<close>, then the crash loop over all months in order.
\<close>

definition plan_monthly_returns ::
  "crash_config \<Rightarrow> real \<Rightarrow> real \<Rightarrow> nat \<Rightarrow> (nat \<Rightarrow> real) \<Rightarrow> (nat \<Rightarrow> real) \<Rightarrow> (nat \<Rightarrow> real) \<Rightarrow> error + real list" where
  "plan_monthly_returns cfg mer mv n zs us ws =
     (case np_random_normal (PyFloat mer) (Float mv) n zs of
        Inl e \<Rightarrow> Inl e
      | Inr rets \<Rightarrow>
          (let crash_months = map (\<lambda>k. us k < crash_probability cfg) [0..<n]
           in Inr (fst (crash_loop ws cfg mer mv crash_months [0..<n] (rets, 0)))))"

text \<open>
  Comparison of two column entries; false when either is NaN.
\<close>

definition fle :: "npfloat \<Rightarrow> npfloat \<Rightarrow> bool" where
  "fle a b = (case a of None \<Rightarrow> False
              | Some x \<Rightarrow> (case b of None \<Rightarrow> False | Some y \<Rightarrow> x \<le> y))"

section \<open>Facts about the float operations\<close>

lemma fadd_simps [simp]:
  "fadd (Some x) (Some y) = Some (x + y)" "fadd None b = None" "fadd a None = None"
  by (simp_all add: fadd_def split: option.splits)

lemma fsub_simps [simp]:
  "fsub (Some x) (Some y) = Some (x - y)" "fsub None b = None" "fsub a None = None"
  by (simp_all add: fsub_def split: option.splits)

lemma fmul_simps [simp]:
  "fmul (Some x) (Some y) = Some (x * y)" "fmul None b = None" "fmul a None = None"
  by (simp_all add: fmul_def split: option.splits)

lemma fge0_simps [simp]: "fge0 (Some x) = (0 \<le> x)" "fge0 None = False"
  by (simp_all add: fge0_def)

section \<open>The portfolio loop follows the update rule\<close>

lemma portfolio_loop_step:
  assumes "i < length pv"
  shows "portfolio_loop investment rets (i # rest) (cur, pv) =
         portfolio_loop investment rets rest
           (spec_update_rule cur (investment ! i) (rets ! i), pv[i := spec_update_rule cur (investment ! i) (rets ! i)])"
proof (cases "i = 0")
  case True
  with assms have "0 < length pv" by simp
  with True show ?thesis
    by (simp add: spec_update_rule_def flat_interest_rate_def Let_def)
next
  case False
  then show ?thesis
    by (simp add: spec_update_rule_def flat_interest_rate_def Let_def)
qed

lemma portfolio_loop_upt:
  assumes "n \<le> length pv" "k \<le> n"
    and "cur = (if k = 0 then Some init else spec_rule_value init investment rets (k - 1))"
  shows "portfolio_loop investment rets [k..<n] (cur, pv) =
         ((if n = 0 then Some init else spec_rule_value init investment rets (n - 1)),
          map (\<lambda>j. if k \<le> j \<and> j < n then spec_rule_value init investment rets j else pv ! j) [0..<length pv])"
  using assms
proof (induction "n - k" arbitrary: k cur pv)
  case 0
  then have "k = n" by simp
  moreover have "map (\<lambda>j. if n \<le> j \<and> j < n then spec_rule_value init investment rets j else pv ! j)
                  [0..<length pv] = pv"
    by (rule nth_equalityI) auto
  ultimately show ?case using 0 by (cases n) simp_all
next
  case (Suc d)
  then have kn: "k < n" and klen: "k < length pv" by auto
  let ?v = "spec_update_rule cur (investment ! k) (rets ! k)"
  have v: "?v = spec_rule_value init investment rets k"
    using Suc.prems(3) by (cases k) simp_all
  have upt: "[k..<n] = k # [Suc k..<n]" using kn by (simp add: upt_rec)
  have "portfolio_loop investment rets [k..<n] (cur, pv) =
        portfolio_loop investment rets [Suc k..<n] (?v, pv[k := ?v])"
    unfolding upt using klen by (rule portfolio_loop_step)
  also have "\<dots> = ((if n = 0 then Some init else spec_rule_value init investment rets (n - 1)),
          map (\<lambda>j. if Suc k \<le> j \<and> j < n then spec_rule_value init investment rets j else pv[k := ?v] ! j)
            [0..<length (pv[k := ?v])])"
  proof (rule Suc.hyps(1))
    show "d = n - Suc k" using Suc.hyps(2) by simp
    show "n \<le> length (pv[k := ?v])" using Suc.prems(1) by simp
    show "Suc k \<le> n" using kn by simp
    show "?v = (if Suc k = 0 then Some init else spec_rule_value init investment rets (Suc k - 1))"
      using v by simp
  qed
  also have "\<dots> = ((if n = 0 then Some init else spec_rule_value init investment rets (n - 1)),
          map (\<lambda>j. if k \<le> j \<and> j < n then spec_rule_value init investment rets j else pv ! j) [0..<length pv])"
    using kn klen v by (auto simp: nth_list_update)
  finally show ?case .
qed

lemma portfolio_values_eq:
  "portfolio_values init investment rets = map (spec_rule_value init investment rets) [0..<length investment]"
  unfolding portfolio_values_def
  by (subst portfolio_loop_upt [where init = init]) (auto simp: map_nth)

lemma length_portfolio_values [simp]:
  "length (portfolio_values init investment rets) = length investment"
  by (simp add: portfolio_values_eq)

lemma portfolio_values_nth:
  "i < length investment \<Longrightarrow> portfolio_values init investment rets ! i = spec_rule_value init investment rets i"
  by (simp add: portfolio_values_eq)

lemma plan_portfolio_loop_length:
  "length (snd (plan_portfolio_loop investment rets idx st)) = length (snd st)"
  by (induction investment rets idx st rule: plan_portfolio_loop.induct) (simp_all add: Let_def)

lemma plan_portfolio_loop_untouched:
  "j \<notin> set idx \<Longrightarrow> snd (plan_portfolio_loop investment rets idx st) ! j = snd st ! j"
  by (induction investment rets idx st rule: plan_portfolio_loop.induct) (simp_all add: Let_def)

lemma plan_portfolio_values_first:
  assumes "0 < length investment"
  shows "plan_portfolio_values investment rets ! 0 =
         fmul (fadd (Some 50000) (investment ! 0)) (Some (1 + rets ! 0))"
proof -
  let ?v = "fmul (fadd (Some 50000) (investment ! 0)) (Some (1 + rets ! 0))"
  let ?pv = "replicate (length investment) (Some (0::real))"
  have upt: "[0..<length investment] = 0 # [Suc 0..<length investment]"
    using assms by (simp add: upt_rec)
  have "plan_portfolio_values investment rets ! 0 =
        snd (plan_portfolio_loop investment rets [Suc 0..<length investment] (?v, ?pv[0 := ?v])) ! 0"
    unfolding plan_portfolio_values_def upt using assms by (simp add: Let_def)
  also have "\<dots> = snd (?v, ?pv[0 := ?v]) ! 0"
    by (rule plan_portfolio_loop_untouched) simp
  finally show ?thesis using assms by simp
qed

lemma app_portfolio_value_update_rule:
  assumes "i < length investment"
  shows "portfolio_values init investment rets ! i =
           spec_update_rule (if i = 0 then Some init else portfolio_values init investment rets ! (i - 1))
             (investment ! i) (rets ! i)"
proof (cases i)
  case 0
  then show ?thesis using assms by (simp add: portfolio_values_nth)
next
  case (Suc j)
  then have "j < length investment" using assms by simp
  then show ?thesis using assms Suc by (simp add: portfolio_values_nth)
qed

lemma plan_portfolio_values_second:
  assumes "Suc 0 < length investment"
  shows "plan_portfolio_values investment rets ! Suc 0 =
         fadd (fmul (plan_portfolio_values investment rets ! 0) (Some (1 + rets ! Suc 0)))
           (investment ! Suc 0)"
proof -
  let ?v0 = "fmul (fadd (Some 50000) (investment ! 0)) (Some (1 + rets ! 0))"
  let ?v1 = "fadd (fmul ?v0 (Some (1 + rets ! Suc 0))) (investment ! Suc 0)"
  let ?pv = "replicate (length investment) (Some (0::real))"
  have pos: "0 < length investment" using assms by (cases investment) simp_all
  have "[0..<length investment] = 0 # [Suc 0..<length investment]"
    using pos by (simp add: upt_rec)
  moreover have "[Suc 0..<length investment] = Suc 0 # [Suc (Suc 0)..<length investment]"
    using assms by (simp add: upt_rec)
  ultimately have upt: "[0..<length investment] = 0 # Suc 0 # [Suc (Suc 0)..<length investment]"
    by simp
  have "plan_portfolio_values investment rets ! Suc 0 =
        snd (plan_portfolio_loop investment rets [Suc (Suc 0)..<length investment]
               (?v1, ?pv[0 := ?v0, Suc 0 := ?v1])) ! Suc 0"
    unfolding plan_portfolio_values_def upt using assms pos by (simp add: Let_def)
  also have "\<dots> = snd (?v1, ?pv[0 := ?v0, Suc 0 := ?v1]) ! Suc 0"
    by (rule plan_portfolio_loop_untouched) simp
  also have "\<dots> = ?v1" using assms by simp
  finally show ?thesis
    using pos by (simp add: plan_portfolio_values_first)
qed

lemma plan_monthly_investment_length: "length plan_monthly_investment = 492"
  by (simp add: plan_monthly_investment_def Let_def plan_params_def num_months_def
      inflated_def age_column_def)

lemma plan_monthly_investment_nth:
  assumes "k < 492"
  shows "plan_monthly_investment ! k =
         Some (5000 * (103 / 100) powr (real (month_end_days k) / 365.25)
               - 3500 * (103 / 100) powr (real (month_end_days k) / 365.25))"
proof -
  have "np_power (103 / 100) (real (month_end_days k) / 365.25)
        = Some ((103 / 100) powr (real (month_end_days k) / 365.25))"
    by (simp add: np_power_def)
  then show ?thesis
    using assms
    by (simp add: plan_monthly_investment_def Let_def plan_params_def num_months_def
        inflated_def age_column_def)
qed

text \<open>
  C1. The update rule of the specification holds in app.py at every month (lemma
  \<open>app_portfolio_value_update_rule\<close>). plan.py adds the contribution before the return
  in month 0 only: from month 1 on it applies the return to the running balance and
  adds the contribution afterwards. With its own cash flows and a return of 1 percent
  in every month, month 0 is \<open>51500 * 1.01\<close>, and month 1 is that times \<open>1.01\<close> plus the
  contribution \<open>c\<close>, where the update rule gives that plus \<open>c\<close>, times \<open>1.01\<close>.
\<close>

theorem plan_return_before_contribution:
  "\<exists>c. plan_monthly_investment ! 1 = Some c \<and> 0 < c
     \<and> plan_portfolio_values plan_monthly_investment (replicate 492 (1 / 100)) ! 0
         = Some (51500 * (101 / 100))
     \<and> plan_portfolio_values plan_monthly_investment (replicate 492 (1 / 100)) ! 1
         = Some (51500 * (101 / 100) * (101 / 100) + c)
     \<and> spec_update_rule (Some (51500 * (101 / 100))) (Some c) (1 / 100)
         = Some ((51500 * (101 / 100) + c) * (101 / 100))
     \<and> plan_portfolio_values plan_monthly_investment (replicate 492 (1 / 100)) ! 1
         \<noteq> spec_update_rule
              (plan_portfolio_values plan_monthly_investment (replicate 492 (1 / 100)) ! 0)
              (plan_monthly_investment ! 1) (1 / 100)"
proof -
  define x :: real where "x = (103 / 100) powr (real (month_end_days 1) / 365.25)"
  define c :: real where "c = 5000 * x - 3500 * x"
  let ?rets = "replicate 492 (1 / 100 :: real)"
  have xpos: "0 < x" unfolding x_def by simp
  have cpos: "0 < c" unfolding c_def using xpos by simp
  have len: "0 < length plan_monthly_investment" "Suc 0 < length plan_monthly_investment"
    by (simp_all add: plan_monthly_investment_length)
  have i0: "plan_monthly_investment ! 0 = Some 1500"
    using plan_monthly_investment_nth [of 0] by simp
  have i1: "plan_monthly_investment ! 1 = Some c"
    using plan_monthly_investment_nth [of 1] by (simp add: c_def x_def)
  have v0: "plan_portfolio_values plan_monthly_investment ?rets ! 0 = Some (51500 * (101 / 100))"
    using plan_portfolio_values_first [OF len(1), of ?rets] i0 by simp
  have v1: "plan_portfolio_values plan_monthly_investment ?rets ! 1
            = Some (51500 * (101 / 100) * (101 / 100) + c)"
    using plan_portfolio_values_second [OF len(2), of ?rets] v0 i1 by simp
  have r: "spec_update_rule (Some (51500 * (101 / 100))) (Some c) (1 / 100)
           = Some ((51500 * (101 / 100) + c) * (101 / 100))"
    using cpos by (simp add: spec_update_rule_def)
  have "51500 * (101 / 100) * (101 / 100) + c \<noteq> (51500 * (101 / 100) + c) * (101 / 100)"
    using cpos by (simp add: algebra_simps)
  then have ne: "plan_portfolio_values plan_monthly_investment ?rets ! 1
                 \<noteq> spec_update_rule (plan_portfolio_values plan_monthly_investment ?rets ! 0)
                      (plan_monthly_investment ! 1) (1 / 100)"
    unfolding v0 v1 i1 r by simp
  from i1 cpos v0 v1 r ne show ?thesis by blast
qed

lemma plan_portfolio_return_before_investment_example:
  "plan_portfolio_values [Some 1500, Some 1500] [0, 1/10] ! 1 = Some 58150
   \<and> spec_update_rule (plan_portfolio_values [Some 1500, Some 1500] [0, 1/10] ! 0) (Some 1500) (1/10)
       = Some 58300"
  by (simp add: plan_portfolio_values_def spec_update_rule_def upt_rec Let_def)

section \<open>Trailing returns\<close>

lemma slice_nth: "b \<le> length xs \<Longrightarrow> slice xs a b = map (\<lambda>k. xs ! k) [a..<b]"
  unfolding slice_def
  by (rule nth_equalityI) (auto simp: min_def split: if_splits)

lemma slice_prod:
  "b \<le> length xs \<Longrightarrow> prod_list (map f (slice xs a b)) = (\<Prod>k = a..<b. f (xs ! k))"
  by (simp add: slice_nth comp_def prod.distinct_set_conv_list [symmetric])

lemma trailing_loop_eq:
  assumes "0 < window" and "\<forall>i \<in> set idx. i \<le> length returns"
  shows "trailing_loop returns window idx acc =
         Inr (acc @ map (\<lambda>i. if i < window then None
                               else spec_annualized_return returns window i) idx)"
  using assms(2)
proof (induction idx arbitrary: acc)
  case Nil
  show ?case by simp
next
  case (Cons i rest)
  then have "i \<le> length returns" by simp
  then have "prod_list (map (\<lambda>r. 1 + r) (slice returns (i - window) i))
             = (\<Prod>k = i - window..<i. 1 + returns ! k)"
    by (rule slice_prod)
  then show ?case
    using Cons assms(1) by (simp add: spec_annualized_return_def Let_def)
qed

lemma calculate_trailing_return_eq:
  assumes "0 < window"
  shows "calculate_trailing_return returns window =
         Inr (map (\<lambda>i. if i < window then None else spec_annualized_return returns window i)
                [0..<length returns])"
  unfolding calculate_trailing_return_def
  using assms by (subst trailing_loop_eq) simp_all

lemma plan_trailing_loop_eq:
  assumes "0 < window" and "\<forall>i \<in> set idx. i \<le> length returns"
  shows "plan_trailing_loop returns window idx acc =
         Inr (acc @ map (\<lambda>i. if i < window then None
                               else fsub (np_power (1 + (\<Prod>k = i - window..<i. 1 + returns ! k))
                                            (12 / real window)) (Some 1)) idx)"
  using assms(2)
proof (induction idx arbitrary: acc)
  case Nil
  show ?case by simp
next
  case (Cons i rest)
  then have "i \<le> length returns" by simp
  then have "prod_list (map (\<lambda>r. 1 + r) (slice returns (i - window) i))
             = (\<Prod>k = i - window..<i. 1 + returns ! k)"
    by (rule slice_prod)
  then show ?case
    using Cons assms(1) by (simp add: Let_def)
qed

lemma plan_calculate_trailing_return_eq:
  assumes "0 < window"
  shows "plan_calculate_trailing_return returns window =
         Inr (map (\<lambda>i. if i < window then None
                        else fsub (np_power (1 + (\<Prod>k = i - window..<i. 1 + returns ! k))
                                     (12 / real window)) (Some 1))
                [0..<length returns])"
  unfolding plan_calculate_trailing_return_def
  using assms by (subst plan_trailing_loop_eq) simp_all

lemma np_power_defined:
  "0 \<le> x \<Longrightarrow> 0 < y \<Longrightarrow> np_power x y \<noteq> None"
  by (simp add: np_power_def)


lemma app_trailing_return_formula:
  assumes "0 < window" "window \<le> i" "i < length returns"
  shows "\<exists>tr. calculate_trailing_return returns window = Inr tr \<and>
           tr ! i = fsub (np_power (1 + ((\<Prod>k = i - window..<i. 1 + returns ! k) - 1))
                            (12 / real window)) (Some 1)"
  using assms by (simp add: calculate_trailing_return_eq spec_annualized_return_def)

text \<open>
  C2. In app.py the entry at every index \<open>i \<ge> window\<close> is the annualized return of
  the specification, over the \<open>window\<close> returns strictly before \<open>i\<close> (lemma
  \<open>app_trailing_return_formula\<close>). plan.py raises one plus the product to the power
  instead: for 25 months of zero return and window 24, its entry 24 is
  \<open>sqrt 2 - 1\<close>, where the formula of the specification gives 0.
\<close>

theorem plan_trailing_return_defect:
  "\<exists>tr. plan_calculate_trailing_return (replicate 25 0) 24 = Inr tr
      \<and> tr ! 24 = Some (sqrt 2 - 1)
      \<and> spec_annualized_return (replicate 25 0) 24 24 = Some 0
      \<and> tr ! 24 \<noteq> spec_annualized_return (replicate 25 0) 24 24"
  by (simp add: plan_calculate_trailing_return_eq spec_annualized_return_def np_power_def
      powr_half_sqrt)


lemma prod_nonneg_window:
  assumes "\<forall>k. a \<le> k \<and> k < b \<longrightarrow> - 1 \<le> (xs ! k :: real)"
  shows "0 \<le> (\<Prod>k = a..<b. 1 + xs ! k)"
proof (rule prod_nonneg)
  fix k assume "k \<in> {a..<b}"
  then have "- 1 \<le> xs ! k" using assms by simp
  then show "0 \<le> 1 + xs ! k" by simp
qed

lemma spec_annualized_return_defined:
  assumes "0 < window" "0 \<le> (\<Prod>k = i - window..<i. 1 + returns ! k)"
  shows "spec_annualized_return returns window i \<noteq> None"
proof -
  have "np_power (\<Prod>k = i - window..<i. 1 + returns ! k) (12 / real window) \<noteq> None"
    using assms by (intro np_power_defined) simp_all
  then show ?thesis
    by (auto simp: spec_annualized_return_def)
qed

text \<open>
  C6. For a positive window the trailing series has one entry per return; the entries
  at the indices below \<open>window\<close> (the first \<open>window\<close> entries, not \<open>window - 1\<close>)
  are the sentinel, and an entry at an index from \<open>window\<close> on is a number whenever no
  return in its window is below -100%.
\<close>

theorem trailing_return_sentinel_prefix:
  assumes "0 < window"
  shows "\<exists>tr. calculate_trailing_return returns window = Inr tr
           \<and> length tr = length returns
           \<and> (\<forall>i < length returns.
                 (i < window \<longrightarrow> tr ! i = None)
               \<and> (window \<le> i \<and> (\<forall>k. i - window \<le> k \<and> k < i \<longrightarrow> - 1 \<le> returns ! k)
                    \<longrightarrow> tr ! i \<noteq> None))"
proof -
  let ?tr = "map (\<lambda>i. if i < window then None else spec_annualized_return returns window i)
               [0..<length returns]"
  have "calculate_trailing_return returns window = Inr ?tr"
    using assms by (rule calculate_trailing_return_eq)
  moreover have "length ?tr = length returns" by simp
  moreover have "?tr ! i = None" if "i < length returns" "i < window" for i
    using that by simp
  moreover have "?tr ! i \<noteq> None"
    if "i < length returns" "window \<le> i"
       "\<forall>k. i - window \<le> k \<and> k < i \<longrightarrow> - 1 \<le> returns ! k" for i
  proof -
    have "0 \<le> (\<Prod>k = i - window..<i. 1 + returns ! k)"
      using that(3) by (rule prod_nonneg_window)
    then have "spec_annualized_return returns window i \<noteq> None"
      using assms by (intro spec_annualized_return_defined)
    then show ?thesis using that by simp
  qed
  ultimately show ?thesis by blast
qed

theorem trailing_return_sentinel_prefix_witness:
  "(0::nat) < 24 \<and> (\<exists>tr. calculate_trailing_return (replicate 25 0) 24 = Inr tr
      \<and> length tr = 25 \<and> tr ! 23 = None \<and> tr ! 24 = Some 0)"
  using trailing_return_sentinel_prefix [of 24 "replicate 25 0"]
  by (simp add: calculate_trailing_return_eq spec_annualized_return_def np_power_def)

theorem trailing_return_window_index_counterexample:
  "\<exists>tr. calculate_trailing_return (replicate 25 0) 24 = Inr tr \<and> tr ! (24 - 1) = None"
  by (simp add: calculate_trailing_return_eq)

lemma crash_window_product:
  "(\<Prod>k = 0..<24. 1 + ((- 3 / 2) # replicate 24 0) ! k) = (- 1 / 2 :: real)"
proof -
  have "(\<Prod>k = 0..<24. 1 + ((- 3 / 2) # replicate 24 (0::real)) ! k)
        = prod_list (map (\<lambda>r. 1 + r) (slice ((- 3 / 2) # replicate 24 0) 0 24))"
    by (subst slice_prod) simp_all
  also have "\<dots> = - 1 / 2"
    by (simp add: slice_def)
  finally show ?thesis .
qed

lemma trailing_return_nan_example:
  "\<exists>tr. calculate_trailing_return ((- 3 / 2) # replicate 24 0) 24 = Inr tr \<and> tr ! 24 = None"
  using crash_window_product
  by (simp add: calculate_trailing_return_eq spec_annualized_return_def np_power_def)


section \<open>Parameters, errors and cash flows of generate_simulation\<close>

lemma float_simps [simp]:
  "float_value (Float x) = x" "float_value NegZero = 0"
  "signbit (Float x) = (x < 0)" "signbit NegZero"
  "fdiv_pos (Float x) d = Float (x / d)" "fdiv_pos NegZero d = NegZero"
  by (simp_all add: float_value_def signbit_def fdiv_pos_def)

lemma signbit_fdiv_pos [simp]: "0 < d \<Longrightarrow> signbit (fdiv_pos f d) = signbit f"
  by (cases f) (simp_all add: divide_less_0_iff)

lemma float_value_fdiv_pos [simp]: "float_value (fdiv_pos f d) = float_value f / d"
  by (cases f) simp_all

lemma signbit_monthly_volatility [simp]:
  "signbit (monthly_volatility p) = signbit (annual_volatility p)"
  by (simp add: monthly_volatility_def)

lemma month_index_Inr:
  assumes "1 \<le> m" "m \<le> 2844"
  shows "month_index m = Inr (nat \<lfloor>m\<rfloor>)"
proof -
  have "\<lfloor>m\<rfloor> \<le> 2844" using assms(2) by (simp add: floor_le_iff)
  then show ?thesis using assms(1) by (simp add: month_index_def)
qed

lemma month_index_Inr_pos:
  assumes "month_index m = Inr n"
  shows "0 < n" and "n = nat \<lfloor>m\<rfloor>" and "1 \<le> m"
  using assms by (auto simp: month_index_def split: if_splits)

lemma month_index_Inl:
  assumes "m < 1"
  shows "month_index m = Inl IndexError"
  using assms by (simp add: month_index_def)

lemma monthly_returns_ok:
  assumes "\<not> signbit (annual_volatility p)" "- 1 \<le> annual_return_rate p"
  shows "monthly_returns p n zs =
         Inr (map (\<lambda>k. ((1 + annual_return_rate p) powr (1 / 12) - 1)
                         + float_value (monthly_volatility p) * zs k)
                [0..<n])"
  using assms
  by (simp add: monthly_returns_def np_random_normal_def monthly_expected_return_def)

lemma monthly_returns_signbit:
  assumes "signbit (annual_volatility p)" "- 1 \<le> annual_return_rate p"
  shows "monthly_returns p n zs = Inl ValueError"
  using assms
  by (simp add: monthly_returns_def np_random_normal_def monthly_expected_return_def)

lemma monthly_returns_complex:
  assumes "annual_return_rate p < - 1"
  shows "monthly_returns p n zs = Inl TypeError"
  using assms
  by (simp add: monthly_returns_def np_random_normal_def monthly_expected_return_def)


lemma generate_simulation_Inr:
  assumes "month_index (num_months p) = Inr n" "monthly_returns p n zs = Inr rets"
  shows "generate_simulation p zs =
         Inr (\<lparr>Age = age_column p n,
               Monthly_Income = inflated p (monthly_income p) (age_column p n),
               Monthly_Expenses = inflated p (monthly_expenses p) (age_column p n),
               Monthly_Investment =
                 map (\<lambda>(a, b). fsub a b)
                   (zip (inflated p (monthly_income p) (age_column p n))
                        (inflated p (monthly_expenses p) (age_column p n))),
               Portfolio_Value =
                 portfolio_values (initial_investment p)
                   (map (\<lambda>(a, b). fsub a b)
                     (zip (inflated p (monthly_income p) (age_column p n))
                          (inflated p (monthly_expenses p) (age_column p n))))
                   rets\<rparr>,
              map (\<lambda>i. if i < 24 then None else spec_annualized_return rets 24 i) [0..<length rets])"
  using assms by (simp add: generate_simulation_def Let_def calculate_trailing_return_eq)


lemma generate_simulation_sampler_error:
  assumes "month_index (num_months p) = Inr n" "monthly_returns p n zs = Inl e"
  shows "generate_simulation p zs = Inl e"
  using assms by (simp add: generate_simulation_def Let_def)

lemma generate_simulation_Inr_iff:
  "(\<exists>r. generate_simulation p zs = Inr r)
   \<longleftrightarrow> (\<exists>n. month_index (num_months p) = Inr n)
       \<and> \<not> signbit (annual_volatility p) \<and> - 1 \<le> annual_return_rate p"
proof
  assume "\<exists>r. generate_simulation p zs = Inr r"
  then obtain r where r: "generate_simulation p zs = Inr r" ..
  obtain n where n: "month_index (num_months p) = Inr n"
    using r by (cases "month_index (num_months p)") (simp_all add: generate_simulation_def)
  have ok: "\<exists>rets. monthly_returns p n zs = Inr rets"
    using r n by (cases "monthly_returns p n zs") (simp_all add: generate_simulation_def Let_def)
  have rate: "- 1 \<le> annual_return_rate p"
    using ok monthly_returns_complex [of p n zs] by (cases "- 1 \<le> annual_return_rate p") auto
  have "\<not> signbit (annual_volatility p)"
    using ok rate monthly_returns_signbit [of p n zs] by auto
  with n rate show "(\<exists>n. month_index (num_months p) = Inr n)
       \<and> \<not> signbit (annual_volatility p) \<and> - 1 \<le> annual_return_rate p" by blast
next
  assume a: "(\<exists>n. month_index (num_months p) = Inr n)
       \<and> \<not> signbit (annual_volatility p) \<and> - 1 \<le> annual_return_rate p"
  then obtain n where n: "month_index (num_months p) = Inr n" by blast
  have "\<exists>rets. monthly_returns p n zs = Inr rets"
    using a by (simp add: monthly_returns_ok)
  then show "\<exists>r. generate_simulation p zs = Inr r"
    using n generate_simulation_Inr [of p n zs] by auto
qed

lemma generate_simulation_columns:
  assumes "generate_simulation p zs = Inr (df, tr)"
  shows "\<exists>n. month_index (num_months p) = Inr n
           \<and> Age df = age_column p n
           \<and> Monthly_Income df = inflated p (monthly_income p) (age_column p n)
           \<and> Monthly_Expenses df = inflated p (monthly_expenses p) (age_column p n)
           \<and> length (Portfolio_Value df) = n"
proof -
  obtain n where n: "month_index (num_months p) = Inr n"
    using assms by (cases "month_index (num_months p)") (simp_all add: generate_simulation_def)
  obtain rets where rets: "monthly_returns p n zs = Inr rets"
    using assms n by (cases "monthly_returns p n zs") (simp_all add: generate_simulation_def Let_def)
  show ?thesis
    using assms generate_simulation_Inr [OF n rets] n
    by (auto simp: inflated_def age_column_def)
qed


lemma as_real_None [simp]: "as_real v = None \<longleftrightarrow> v = NoValue"
  by (cases v) (simp_all add: as_real_def)

lemma as_real_simps [simp]:
  "as_real NoValue = None" "as_real (IntValue n) = Some (real_of_int n)"
  "as_real (FloatValue f) = Some (float_value f)"
  by (simp_all add: as_real_def)

lemma truediv_100_simps [simp]:
  "truediv_100 NoValue = Inl TypeError"
  "truediv_100 (IntValue n) = Inr (Float (real_of_int n / 100))"
  "truediv_100 (FloatValue f) = Inr (fdiv_pos f 100)"
  by (simp_all add: truediv_100_def)

lemma py_range_simps [simp]:
  "py_range NoValue = Inl TypeError" "py_range (IntValue n) = Inr [0..<nat n]"
  "py_range (FloatValue f) = Inl TypeError"
  by (simp_all add: py_range_def)

lemma numbers_of_simps [simp]:
  "num_months (numbers_of d a b mi me ii) = (b - a) * 12"
  "annual_return_rate (numbers_of d a b mi me ii) = annual_return_rate_value d"
  "annual_volatility (numbers_of d a b mi me ii) = annual_volatility_value d"
  by (simp_all add: numbers_of_def num_months_def)

lemma generate_simulation_dict_month_error:
  assumes "as_real (starting_age_value d) = Some a" "as_real (retirement_age_value d) = Some b"
    and "(b - a) * 12 < 1"
  shows "generate_simulation_dict d zs = Inl IndexError"
  using assms by (simp add: generate_simulation_dict_def month_index_Inl)

lemma generate_simulation_dict_signbit:
  assumes "as_real (starting_age_value d) = Some a" "as_real (retirement_age_value d) = Some b"
    and "1 \<le> (b - a) * 12" "(b - a) * 12 \<le> 2844"
    and "monthly_income_value d \<noteq> NoValue" "monthly_expenses_value d \<noteq> NoValue"
    and "- 1 \<le> annual_return_rate_value d" "signbit (annual_volatility_value d)"
  shows "generate_simulation_dict d zs = Inl ValueError"
proof -
  let ?n = "nat \<lfloor>(b - a) * 12\<rfloor>"
  have m: "month_index ((b - a) * 12) = Inr ?n"
    using assms(3,4) by (rule month_index_Inr)
  obtain mi me where v: "as_real (monthly_income_value d) = Some mi"
      "as_real (monthly_expenses_value d) = Some me"
    using assms(5,6) by (cases "as_real (monthly_income_value d)";
                         cases "as_real (monthly_expenses_value d)") auto
  have r: "monthly_returns (numbers_of d a b mi me ii) ?n zs = Inl ValueError" for ii
    using assms(7,8) by (intro monthly_returns_signbit) simp_all
  show ?thesis
  proof (cases "as_real (initial_investment_value d)")
    case None
    then show ?thesis
      using assms(1,2) m v r [of 0] by (simp add: generate_simulation_dict_def)
  next
    case (Some ii)
    have "generate_simulation (numbers_of d a b mi me ii) zs = Inl ValueError"
      using m r [of ii] by (intro generate_simulation_sampler_error [where n = ?n]) simp_all
    then show ?thesis
      using assms(1,2) m v Some by (simp add: generate_simulation_dict_def)
  qed
qed

lemma generate_simulation_dict_ok:
  assumes "as_real (starting_age_value d) = Some a" "as_real (retirement_age_value d) = Some b"
    and "1 \<le> (b - a) * 12" "(b - a) * 12 \<le> 2844"
    and "monthly_income_value d \<noteq> NoValue" "monthly_expenses_value d \<noteq> NoValue"
    and "initial_investment_value d \<noteq> NoValue"
    and "- 1 \<le> annual_return_rate_value d" "\<not> signbit (annual_volatility_value d)"
  shows "\<exists>r. generate_simulation_dict d zs = Inr r"
proof -
  let ?n = "nat \<lfloor>(b - a) * 12\<rfloor>"
  have m: "month_index ((b - a) * 12) = Inr ?n"
    using assms(3,4) by (rule month_index_Inr)
  obtain mi me ii where v: "as_real (monthly_income_value d) = Some mi"
      "as_real (monthly_expenses_value d) = Some me"
      "as_real (initial_investment_value d) = Some ii"
    using assms(5,6,7) by (cases "as_real (monthly_income_value d)";
                           cases "as_real (monthly_expenses_value d)";
                           cases "as_real (initial_investment_value d)") auto
  have "\<exists>r. generate_simulation (numbers_of d a b mi me ii) zs = Inr r"
    unfolding generate_simulation_Inr_iff using m assms(8,9) by simp
  then show ?thesis
    using assms(1,2) m v by (simp add: generate_simulation_dict_def)
qed

lemma generate_simulation_dict_no_age:
  assumes "starting_age_value d = NoValue \<or> retirement_age_value d = NoValue"
  shows "generate_simulation_dict d zs = Inl TypeError"
  using assms
  by (cases "as_real (starting_age_value d)") (auto simp: generate_simulation_dict_def)

lemma generate_simulation_dict_out_of_bounds:
  assumes "as_real (starting_age_value d) = Some a" "as_real (retirement_age_value d) = Some b"
    and "2848 \<le> (b - a) * 12"
  shows "generate_simulation_dict d zs = Inl OutOfBoundsDatetime"
proof -
  have "2848 \<le> \<lfloor>(b - a) * 12\<rfloor>" using assms(3) by (simp add: le_floor_iff)
  then have "month_index ((b - a) * 12) = Inl OutOfBoundsDatetime"
    using assms(3) by (simp add: month_index_def)
  then show ?thesis using assms(1,2) by (simp add: generate_simulation_dict_def)
qed

lemma generate_simulation_dict_no_cash_flow:
  assumes "as_real (starting_age_value d) = Some a" "as_real (retirement_age_value d) = Some b"
    and "1 \<le> (b - a) * 12" "(b - a) * 12 \<le> 2844"
    and "monthly_income_value d = NoValue \<or> monthly_expenses_value d = NoValue"
  shows "generate_simulation_dict d zs = Inl TypeError"
proof -
  have m: "month_index ((b - a) * 12) = Inr (nat \<lfloor>(b - a) * 12\<rfloor>)"
    using assms(3,4) by (rule month_index_Inr)
  show ?thesis
    using assms(1,2,5) m
    by (cases "as_real (monthly_income_value d)") (auto simp: generate_simulation_dict_def)
qed

lemma generate_simulation_dict_complex:
  assumes "as_real (starting_age_value d) = Some a" "as_real (retirement_age_value d) = Some b"
    and "1 \<le> (b - a) * 12" "(b - a) * 12 \<le> 2844"
    and "monthly_income_value d \<noteq> NoValue" "monthly_expenses_value d \<noteq> NoValue"
    and "annual_return_rate_value d < - 1"
  shows "generate_simulation_dict d zs = Inl TypeError"
proof -
  let ?n = "nat \<lfloor>(b - a) * 12\<rfloor>"
  have m: "month_index ((b - a) * 12) = Inr ?n"
    using assms(3,4) by (rule month_index_Inr)
  obtain mi me where v: "as_real (monthly_income_value d) = Some mi"
      "as_real (monthly_expenses_value d) = Some me"
    using assms(5,6) by (cases "as_real (monthly_income_value d)";
                         cases "as_real (monthly_expenses_value d)") auto
  have r: "monthly_returns (numbers_of d a b mi me ii) ?n zs = Inl TypeError" for ii
    using assms(7) by (intro monthly_returns_complex) simp
  show ?thesis
  proof (cases "as_real (initial_investment_value d)")
    case None
    then show ?thesis
      using assms(1,2) m v r [of 0] by (simp add: generate_simulation_dict_def)
  next
    case (Some ii)
    have "generate_simulation (numbers_of d a b mi me ii) zs = Inl TypeError"
      using m r [of ii] by (intro generate_simulation_sampler_error [where n = ?n]) simp_all
    then show ?thesis
      using assms(1,2) m v Some by (simp add: generate_simulation_dict_def)
  qed
qed

lemma generate_simulation_dict_no_initial_investment:
  assumes "as_real (starting_age_value d) = Some a" "as_real (retirement_age_value d) = Some b"
    and "1 \<le> (b - a) * 12" "(b - a) * 12 \<le> 2844"
    and "monthly_income_value d \<noteq> NoValue" "monthly_expenses_value d \<noteq> NoValue"
    and "initial_investment_value d = NoValue"
    and "- 1 \<le> annual_return_rate_value d" "\<not> signbit (annual_volatility_value d)"
  shows "generate_simulation_dict d zs = Inl TypeError"
proof -
  let ?n = "nat \<lfloor>(b - a) * 12\<rfloor>"
  have m: "month_index ((b - a) * 12) = Inr ?n"
    using assms(3,4) by (rule month_index_Inr)
  obtain mi me where v: "as_real (monthly_income_value d) = Some mi"
      "as_real (monthly_expenses_value d) = Some me"
    using assms(5,6) by (cases "as_real (monthly_income_value d)";
                         cases "as_real (monthly_expenses_value d)") auto
  have "\<exists>rets. monthly_returns (numbers_of d a b mi me 0) ?n zs = Inr rets"
    using assms(8,9) by (simp add: monthly_returns_ok)
  then show ?thesis
    using assms(1,2,7) m v by (auto simp: generate_simulation_dict_def)
qed

lemma simulation_runs_ok:
  assumes "\<forall>k \<in> set idx. \<exists>r. generate_simulation_dict d (zss k) = Inr r"
  shows "\<exists>batch. simulation_runs d zss idx acc = Inr batch \<and> length batch = length acc + length idx"
  using assms
proof (induction idx arbitrary: acc)
  case Nil
  show ?case by simp
next
  case (Cons k rest)
  then obtain r where r: "generate_simulation_dict d (zss k) = Inr r" by auto
  have "\<exists>batch. simulation_runs d zss rest (acc @ [r]) = Inr batch
          \<and> length batch = length (acc @ [r]) + length rest"
    using Cons.prems by (intro Cons.IH) simp
  then show ?case using r by simp
qed

lemma simulation_runs_first_error:
  assumes "generate_simulation_dict d (zss 0) = Inl e" "0 < n"
  shows "simulation_runs d zss [0..<nat n] [] = Inl e"
proof -
  have "[0..<nat n] = 0 # [Suc 0..<nat n]" using assms(2) by (simp add: upt_rec)
  then show ?thesis using assms(1) by simp
qed


lemma update_graph_runs:
  assumes "n_clicks \<noteq> 0" "truediv_100 ar = Inr rate" "truediv_100 av = Inr vol"
    and "truediv_100 ir = Inr infl"
  shows "update_graph n_clicks sa ra mi me ar av ir ii ns zss =
         (case py_range ns of
            Inl e \<Rightarrow> Inl e
          | Inr runs \<Rightarrow>
              (case simulation_runs
                      \<lparr>starting_age_value = sa, retirement_age_value = ra,
                       monthly_income_value = mi, monthly_expenses_value = me,
                       annual_return_rate_value = float_value rate,
                       annual_volatility_value = vol,
                       inflation_rate_value = float_value infl,
                       initial_investment_value = ii, num_simulations_value = ns\<rparr>
                      zss runs [] of
                 Inl e \<Rightarrow> Inl e
               | Inr batch \<Rightarrow> if batch = [] then Inl IndexError else Inr (Rendered batch)))"
  using assms by (simp add: update_graph_def Let_def)

lemma update_graph_first_error:
  assumes "n_clicks \<noteq> 0" "truediv_100 ar = Inr rate" "truediv_100 av = Inr vol"
    and "truediv_100 ir = Inr infl" "0 < n"
    and "generate_simulation_dict
           \<lparr>starting_age_value = sa, retirement_age_value = ra,
            monthly_income_value = mi, monthly_expenses_value = me,
            annual_return_rate_value = float_value rate,
            annual_volatility_value = vol,
            inflation_rate_value = float_value infl,
            initial_investment_value = ii, num_simulations_value = IntValue n\<rparr>
           (zss 0) = Inl e"
  shows "update_graph n_clicks sa ra mi me ar av ir ii (IntValue n) zss = Inl e"
  using simulation_runs_first_error [where zss = zss, OF assms(6,5)]
  by (simp add: update_graph_runs [OF assms(1-4)])

text \<open>
  C5. app.py has no validation step and no error kind of its own: the errors are those
  of the libraries, raised where the source first trips. After a click, with the three
  percentages given and a whole simulation count of at least 1: a month count below 1
  (a retirement age not above the starting age) makes \<open>update_graph\<close> raise
  IndexError, whatever the other inputs are. With a month count from 1 to 2844, an
  empty income or expenses field raises the TypeError of its column, whatever the
  volatility is; with both given, an annual return below -100 percent raises the
  sampler's TypeError, and otherwise a volatility whose sign bit is set (negative, or
  \<open>-0.0\<close>) raises the sampler's ValueError; with, in addition, the initial investment
  given and the sign bit of the volatility clear, \<open>update_graph\<close> raises nothing and
  renders one path per simulation.
\<close>

theorem parameter_errors:
  assumes "n_clicks \<noteq> 0" "truediv_100 ar = Inr rate" "truediv_100 av = Inr vol"
    and "truediv_100 ir = Inr infl" "0 < n"
    and "as_real sa = Some a" "as_real ra = Some b"
  shows "((b - a) * 12 < 1 \<longrightarrow>
            update_graph n_clicks sa ra mi me ar av ir ii (IntValue n) zss = Inl IndexError)
       \<and> (1 \<le> (b - a) * 12 \<and> (b - a) * 12 \<le> 2844 \<and> (mi = NoValue \<or> me = NoValue) \<longrightarrow>
            update_graph n_clicks sa ra mi me ar av ir ii (IntValue n) zss = Inl TypeError)
       \<and> (1 \<le> (b - a) * 12 \<and> (b - a) * 12 \<le> 2844 \<and> mi \<noteq> NoValue \<and> me \<noteq> NoValue
            \<and> float_value rate < - 1 \<longrightarrow>
            update_graph n_clicks sa ra mi me ar av ir ii (IntValue n) zss = Inl TypeError)
       \<and> (1 \<le> (b - a) * 12 \<and> (b - a) * 12 \<le> 2844 \<and> mi \<noteq> NoValue \<and> me \<noteq> NoValue
            \<and> - 1 \<le> float_value rate \<and> signbit vol \<longrightarrow>
            update_graph n_clicks sa ra mi me ar av ir ii (IntValue n) zss = Inl ValueError)
       \<and> (1 \<le> (b - a) * 12 \<and> (b - a) * 12 \<le> 2844 \<and> mi \<noteq> NoValue \<and> me \<noteq> NoValue
            \<and> ii \<noteq> NoValue \<and> - 1 \<le> float_value rate \<and> \<not> signbit vol \<longrightarrow>
            (\<exists>batch. update_graph n_clicks sa ra mi me ar av ir ii (IntValue n) zss
                        = Inr (Rendered batch)
                    \<and> length batch = nat n))"
proof (intro conjI impI)
  let ?d = "\<lparr>starting_age_value = sa, retirement_age_value = ra,
             monthly_income_value = mi, monthly_expenses_value = me,
             annual_return_rate_value = float_value rate,
             annual_volatility_value = vol,
             inflation_rate_value = float_value infl,
             initial_investment_value = ii, num_simulations_value = IntValue n\<rparr>"
  {
    assume "(b - a) * 12 < 1"
    then have "generate_simulation_dict ?d (zss 0) = Inl IndexError"
      using assms(6,7)
      by (intro generate_simulation_dict_month_error [where a = a and b = b]) simp_all
    then show "update_graph n_clicks sa ra mi me ar av ir ii (IntValue n) zss = Inl IndexError"
      by (rule update_graph_first_error [OF assms(1-5)])
  next
    assume "1 \<le> (b - a) * 12 \<and> (b - a) * 12 \<le> 2844 \<and> (mi = NoValue \<or> me = NoValue)"
    then have "1 \<le> (b - a) * 12" "(b - a) * 12 \<le> 2844" "mi = NoValue \<or> me = NoValue"
      by blast+
    then have "generate_simulation_dict ?d (zss 0) = Inl TypeError"
      using assms(6,7)
      by (intro generate_simulation_dict_no_cash_flow [where a = a and b = b]) simp_all
    then show "update_graph n_clicks sa ra mi me ar av ir ii (IntValue n) zss = Inl TypeError"
      by (rule update_graph_first_error [OF assms(1-5)])
  next
    assume "1 \<le> (b - a) * 12 \<and> (b - a) * 12 \<le> 2844 \<and> mi \<noteq> NoValue \<and> me \<noteq> NoValue
            \<and> float_value rate < - 1"
    then have "1 \<le> (b - a) * 12" "(b - a) * 12 \<le> 2844" "mi \<noteq> NoValue" "me \<noteq> NoValue"
        "float_value rate < - 1"
      by blast+
    then have "generate_simulation_dict ?d (zss 0) = Inl TypeError"
      using assms(6,7)
      by (intro generate_simulation_dict_complex [where a = a and b = b]) simp_all
    then show "update_graph n_clicks sa ra mi me ar av ir ii (IntValue n) zss = Inl TypeError"
      by (rule update_graph_first_error [OF assms(1-5)])
  next
    assume h: "1 \<le> (b - a) * 12 \<and> (b - a) * 12 \<le> 2844 \<and> mi \<noteq> NoValue \<and> me \<noteq> NoValue
            \<and> - 1 \<le> float_value rate \<and> signbit vol"
    then have "1 \<le> (b - a) * 12" "(b - a) * 12 \<le> 2844" "mi \<noteq> NoValue" "me \<noteq> NoValue"
        "- 1 \<le> float_value rate" "signbit vol"
      by blast+
    then have "generate_simulation_dict ?d (zss 0) = Inl ValueError"
      using assms(6,7)
      by (intro generate_simulation_dict_signbit [where a = a and b = b]) simp_all
    then show "update_graph n_clicks sa ra mi me ar av ir ii (IntValue n) zss = Inl ValueError"
      by (rule update_graph_first_error [OF assms(1-5)])
  next
    assume h: "1 \<le> (b - a) * 12 \<and> (b - a) * 12 \<le> 2844 \<and> mi \<noteq> NoValue \<and> me \<noteq> NoValue
            \<and> ii \<noteq> NoValue \<and> - 1 \<le> float_value rate \<and> \<not> signbit vol"
    then have hs: "1 \<le> (b - a) * 12" "(b - a) * 12 \<le> 2844" "mi \<noteq> NoValue" "me \<noteq> NoValue"
        "ii \<noteq> NoValue" "- 1 \<le> float_value rate" "\<not> signbit vol"
      by blast+
    have "\<exists>r. generate_simulation_dict ?d (zss k) = Inr r" for k
      using hs assms(6,7)
      by (intro generate_simulation_dict_ok [where a = a and b = b]) simp_all
    then have "\<forall>k \<in> set [0..<nat n]. \<exists>r. generate_simulation_dict ?d (zss k) = Inr r"
      by blast
    then obtain batch where b: "simulation_runs ?d zss [0..<nat n] [] = Inr batch"
        "length batch = length ([] :: (dataframe \<times> npfloat list) list) + length [0..<nat n]"
      using simulation_runs_ok by blast
    then have "batch \<noteq> []" using assms(5) by auto
    then show "\<exists>batch. update_graph n_clicks sa ra mi me ar av ir ii (IntValue n) zss
                        = Inr (Rendered batch)
                    \<and> length batch = nat n"
      using b by (simp add: update_graph_runs [OF assms(1-4)])
  }
qed



theorem parameter_errors_witness:
  "update_graph 1 (IntValue 65) (IntValue 24) (IntValue 5000) (IntValue 3500) (IntValue 7)
       (IntValue 15) (IntValue 3) (IntValue 50000) (IntValue 100) (\<lambda>r k. 0) = Inl IndexError
   \<and> update_graph 1 (IntValue 24) (IntValue 65) (IntValue 5000) NoValue (IntValue 7)
       (IntValue 15) (IntValue 3) (IntValue 50000) (IntValue 100) (\<lambda>r k. 0) = Inl TypeError
   \<and> update_graph 1 (IntValue 24) (IntValue 65) (IntValue 5000) (IntValue 3500) (IntValue (- 150))
       (IntValue 15) (IntValue 3) (IntValue 50000) (IntValue 100) (\<lambda>r k. 0) = Inl TypeError
   \<and> update_graph 1 (IntValue 24) (IntValue 65) (IntValue 5000) (IntValue 3500) (IntValue 7)
       (IntValue (- 15)) (IntValue 3) (IntValue 50000) (IntValue 100) (\<lambda>r k. 0) = Inl ValueError
   \<and> (\<exists>batch. update_graph 1 (IntValue 24) (IntValue 65) (IntValue 5000) (IntValue 3500) (IntValue 7)
       (IntValue 15) (IntValue 3) (IntValue 50000) (IntValue 100) (\<lambda>r k. 0)
               = Inr (Rendered batch)
             \<and> length batch = 100)"
proof -
  have a: "update_graph 1 (IntValue 65) (IntValue 24) (IntValue 5000) (IntValue 3500) (IntValue 7)
       (IntValue 15) (IntValue 3) (IntValue 50000) (IntValue 100) (\<lambda>r k. 0) = Inl IndexError"
    using parameter_errors [where n_clicks = 1 and ar = "IntValue 7" and av = "IntValue 15"
        and ir = "IntValue 3" and n = 100 and sa = "IntValue 65" and ra = "IntValue 24"
        and a = 65 and b = 24 and mi = "IntValue 5000" and me = "IntValue 3500"
        and ii = "IntValue 50000" and zss = "\<lambda>r k. 0"]
    by simp
  have b: "update_graph 1 (IntValue 24) (IntValue 65) (IntValue 5000) NoValue (IntValue 7)
       (IntValue 15) (IntValue 3) (IntValue 50000) (IntValue 100) (\<lambda>r k. 0) = Inl TypeError"
    using parameter_errors [where n_clicks = 1 and ar = "IntValue 7" and av = "IntValue 15"
        and ir = "IntValue 3" and n = 100 and sa = "IntValue 24" and ra = "IntValue 65"
        and a = 24 and b = 65 and mi = "IntValue 5000" and me = "NoValue"
        and ii = "IntValue 50000" and zss = "\<lambda>r k. 0"]
    by simp
  have c: "update_graph 1 (IntValue 24) (IntValue 65) (IntValue 5000) (IntValue 3500) (IntValue (- 150))
       (IntValue 15) (IntValue 3) (IntValue 50000) (IntValue 100) (\<lambda>r k. 0) = Inl TypeError"
    using parameter_errors [where n_clicks = 1 and ar = "IntValue (- 150)" and av = "IntValue 15"
        and ir = "IntValue 3" and n = 100 and sa = "IntValue 24" and ra = "IntValue 65"
        and a = 24 and b = 65 and mi = "IntValue 5000" and me = "IntValue 3500"
        and ii = "IntValue 50000" and zss = "\<lambda>r k. 0"]
    by simp
  have d: "update_graph 1 (IntValue 24) (IntValue 65) (IntValue 5000) (IntValue 3500) (IntValue 7)
       (IntValue (- 15)) (IntValue 3) (IntValue 50000) (IntValue 100) (\<lambda>r k. 0) = Inl ValueError"
    using parameter_errors [where n_clicks = 1 and ar = "IntValue 7" and av = "IntValue (- 15)"
        and ir = "IntValue 3" and n = 100 and sa = "IntValue 24" and ra = "IntValue 65"
        and a = 24 and b = 65 and mi = "IntValue 5000" and me = "IntValue 3500"
        and ii = "IntValue 50000" and zss = "\<lambda>r k. 0"]
    by simp
  have e: "\<exists>batch. update_graph 1 (IntValue 24) (IntValue 65) (IntValue 5000) (IntValue 3500) (IntValue 7)
       (IntValue 15) (IntValue 3) (IntValue 50000) (IntValue 100) (\<lambda>r k. 0)
               = Inr (Rendered batch)
             \<and> length batch = 100"
    using parameter_errors [where n_clicks = 1 and ar = "IntValue 7" and av = "IntValue 15"
        and ir = "IntValue 3" and n = 100 and sa = "IntValue 24" and ra = "IntValue 65"
        and a = 24 and b = 65 and mi = "IntValue 5000" and me = "IntValue 3500"
        and ii = "IntValue 50000" and zss = "\<lambda>r k. 0"]
    by simp
  from a b c d e show ?thesis by blast
qed

theorem unvalidated_parameters_counterexample:
  "update_graph 1 (IntValue 24) (IntValue 65) (IntValue 5000) (IntValue 3500) (IntValue (- 200))
       (IntValue 15) (IntValue 3) (IntValue 50000) (IntValue 100) (\<lambda>r k. 0) = Inl TypeError
   \<and> update_graph 1 (IntValue 24) (IntValue 65) (IntValue 5000) (IntValue 3500) (IntValue 7)
       (IntValue (- 15)) (IntValue 3) (IntValue 50000) (IntValue 100) (\<lambda>r k. 0) = Inl ValueError
   \<and> update_graph 1 (IntValue 24) (IntValue 65) NoValue (IntValue 3500) (IntValue 7)
       (IntValue (- 15)) (IntValue 3) (IntValue 50000) (IntValue 100) (\<lambda>r k. 0) = Inl TypeError
   \<and> update_graph 1 (IntValue 24) (IntValue 65) (IntValue 5000) (IntValue 3500) (IntValue 7)
       (FloatValue NegZero) (IntValue 3) (IntValue 50000) (IntValue 100) (\<lambda>r k. 0) = Inl ValueError
   \<and> update_graph 1 (IntValue 24) (IntValue 65) (IntValue 5000) (IntValue 3500) (IntValue 7)
       (IntValue 15) (IntValue 3) NoValue (IntValue 100) (\<lambda>r k. 0) = Inl TypeError
   \<and> update_graph 1 (IntValue 24) (IntValue 65) (IntValue 5000) (IntValue 3500) (IntValue 7)
       NoValue (IntValue 3) (IntValue 50000) (IntValue 100) (\<lambda>r k. 0) = Inl TypeError
   \<and> update_graph 1 (IntValue 24) (IntValue 262) (IntValue 5000) (IntValue 3500) (IntValue 7)
       (IntValue 15) (IntValue 3) (IntValue 50000) (IntValue 100) (\<lambda>r k. 0) = Inl OutOfBoundsDatetime
   \<and> update_graph 1 (IntValue 24) (IntValue 65) (IntValue 5000) (IntValue 3500) (IntValue 7)
       (IntValue 15) (IntValue 3) (IntValue 50000) (FloatValue (Float 100)) (\<lambda>r k. 0) = Inl TypeError
   \<and> update_graph 0 (IntValue 65) (IntValue 24) (IntValue 5000) (IntValue 3500) (IntValue 7)
       (IntValue (- 15)) (IntValue 3) (IntValue 50000) (IntValue 100) (\<lambda>r k. 0) = Inr Placeholder"
proof (intro conjI)
  have g: "generate_simulation_dict
         \<lparr>starting_age_value = IntValue 24, retirement_age_value = IntValue 65,
          monthly_income_value = IntValue 5000, monthly_expenses_value = IntValue 3500,
          annual_return_rate_value = - 2, annual_volatility_value = Float (3 / 20),
          inflation_rate_value = 3 / 100, initial_investment_value = IntValue 50000,
          num_simulations_value = IntValue 100\<rparr> (\<lambda>k. 0) = Inl TypeError"
    by (rule generate_simulation_dict_complex [where a = 24 and b = 65]) simp_all
  show "update_graph 1 (IntValue 24) (IntValue 65) (IntValue 5000) (IntValue 3500) (IntValue (- 200))
       (IntValue 15) (IntValue 3) (IntValue 50000) (IntValue 100) (\<lambda>r k. 0) = Inl TypeError"
    using simulation_runs_first_error [where zss = "\<lambda>r k. 0" and n = 100, OF g]
    by (simp add: update_graph_def Let_def)
next
  have g: "generate_simulation_dict
         \<lparr>starting_age_value = IntValue 24, retirement_age_value = IntValue 65,
          monthly_income_value = IntValue 5000, monthly_expenses_value = IntValue 3500,
          annual_return_rate_value = 7 / 100, annual_volatility_value = Float (- (3 / 20)),
          inflation_rate_value = 3 / 100, initial_investment_value = IntValue 50000,
          num_simulations_value = IntValue 100\<rparr> (\<lambda>k. 0) = Inl ValueError"
    by (rule generate_simulation_dict_signbit [where a = 24 and b = 65]) simp_all
  show "update_graph 1 (IntValue 24) (IntValue 65) (IntValue 5000) (IntValue 3500) (IntValue 7)
       (IntValue (- 15)) (IntValue 3) (IntValue 50000) (IntValue 100) (\<lambda>r k. 0) = Inl ValueError"
    using simulation_runs_first_error [where zss = "\<lambda>r k. 0" and n = 100, OF g]
    by (simp add: update_graph_def Let_def)
next
  have g: "generate_simulation_dict
         \<lparr>starting_age_value = IntValue 24, retirement_age_value = IntValue 65,
          monthly_income_value = NoValue, monthly_expenses_value = IntValue 3500,
          annual_return_rate_value = 7 / 100, annual_volatility_value = Float (- (3 / 20)),
          inflation_rate_value = 3 / 100, initial_investment_value = IntValue 50000,
          num_simulations_value = IntValue 100\<rparr> (\<lambda>k. 0) = Inl TypeError"
    by (rule generate_simulation_dict_no_cash_flow [where a = 24 and b = 65]) simp_all
  show "update_graph 1 (IntValue 24) (IntValue 65) NoValue (IntValue 3500) (IntValue 7)
       (IntValue (- 15)) (IntValue 3) (IntValue 50000) (IntValue 100) (\<lambda>r k. 0) = Inl TypeError"
    using simulation_runs_first_error [where zss = "\<lambda>r k. 0" and n = 100, OF g]
    by (simp add: update_graph_def Let_def)
next
  have g: "generate_simulation_dict
         \<lparr>starting_age_value = IntValue 24, retirement_age_value = IntValue 65,
          monthly_income_value = IntValue 5000, monthly_expenses_value = IntValue 3500,
          annual_return_rate_value = 7 / 100, annual_volatility_value = NegZero,
          inflation_rate_value = 3 / 100, initial_investment_value = IntValue 50000,
          num_simulations_value = IntValue 100\<rparr> (\<lambda>k. 0) = Inl ValueError"
    by (rule generate_simulation_dict_signbit [where a = 24 and b = 65]) simp_all
  show "update_graph 1 (IntValue 24) (IntValue 65) (IntValue 5000) (IntValue 3500) (IntValue 7)
       (FloatValue NegZero) (IntValue 3) (IntValue 50000) (IntValue 100) (\<lambda>r k. 0) = Inl ValueError"
    using simulation_runs_first_error [where zss = "\<lambda>r k. 0" and n = 100, OF g]
    by (simp add: update_graph_def Let_def)
next
  have g: "generate_simulation_dict
         \<lparr>starting_age_value = IntValue 24, retirement_age_value = IntValue 65,
          monthly_income_value = IntValue 5000, monthly_expenses_value = IntValue 3500,
          annual_return_rate_value = 7 / 100, annual_volatility_value = Float (3 / 20),
          inflation_rate_value = 3 / 100, initial_investment_value = NoValue,
          num_simulations_value = IntValue 100\<rparr> (\<lambda>k. 0) = Inl TypeError"
    by (rule generate_simulation_dict_no_initial_investment [where a = 24 and b = 65]) simp_all
  show "update_graph 1 (IntValue 24) (IntValue 65) (IntValue 5000) (IntValue 3500) (IntValue 7)
       (IntValue 15) (IntValue 3) NoValue (IntValue 100) (\<lambda>r k. 0) = Inl TypeError"
    using simulation_runs_first_error [where zss = "\<lambda>r k. 0" and n = 100, OF g]
    by (simp add: update_graph_def Let_def)
next
  show "update_graph 1 (IntValue 24) (IntValue 65) (IntValue 5000) (IntValue 3500) (IntValue 7)
       NoValue (IntValue 3) (IntValue 50000) (IntValue 100) (\<lambda>r k. 0) = Inl TypeError"
    by (simp add: update_graph_def Let_def)
next
  have g: "generate_simulation_dict
         \<lparr>starting_age_value = IntValue 24, retirement_age_value = IntValue 262,
          monthly_income_value = IntValue 5000, monthly_expenses_value = IntValue 3500,
          annual_return_rate_value = 7 / 100, annual_volatility_value = Float (3 / 20),
          inflation_rate_value = 3 / 100, initial_investment_value = IntValue 50000,
          num_simulations_value = IntValue 100\<rparr> (\<lambda>k. 0) = Inl OutOfBoundsDatetime"
    by (rule generate_simulation_dict_out_of_bounds [where a = 24 and b = 262]) simp_all
  show "update_graph 1 (IntValue 24) (IntValue 262) (IntValue 5000) (IntValue 3500) (IntValue 7)
       (IntValue 15) (IntValue 3) (IntValue 50000) (IntValue 100) (\<lambda>r k. 0) = Inl OutOfBoundsDatetime"
    using simulation_runs_first_error [where zss = "\<lambda>r k. 0" and n = 100, OF g]
    by (simp add: update_graph_def Let_def)
next
  show "update_graph 1 (IntValue 24) (IntValue 65) (IntValue 5000) (IntValue 3500) (IntValue 7)
       (IntValue 15) (IntValue 3) (IntValue 50000) (FloatValue (Float 100)) (\<lambda>r k. 0) = Inl TypeError"
    by (simp add: update_graph_def Let_def)
next
  show "update_graph 0 (IntValue 65) (IntValue 24) (IntValue 5000) (IntValue 3500) (IntValue 7)
       (IntValue (- 15)) (IntValue 3) (IntValue 50000) (IntValue 100) (\<lambda>r k. 0) = Inr Placeholder"
    by (simp add: update_graph_def Let_def)
qed

lemma np_power_ge_one:
  assumes "1 \<le> x" "0 \<le> y"
  shows "np_power x y = Some (x powr y)"
  using assms by (simp add: np_power_def)

lemma inflated_nth:
  assumes "0 \<le> inflation_rate p" "k < n"
  shows "inflated p base (age_column p n) ! k =
         Some (base * (1 + inflation_rate p) powr (real (month_end_days k) / 365.25))"
  using assms by (simp add: inflated_def age_column_def np_power_ge_one)

lemma length_inflated [simp]: "length (inflated p base (age_column p n)) = n"
  by (simp add: inflated_def age_column_def)

lemma inflated_mono:
  assumes "0 \<le> inflation_rate p" "0 \<le> base" "Suc k < n"
  shows "fle (inflated p base (age_column p n) ! k) (inflated p base (age_column p n) ! Suc k)"
proof -
  have "real (month_end_days k) / 365.25 \<le> real (month_end_days (Suc k)) / 365.25"
    by simp
  then have "(1 + inflation_rate p) powr (real (month_end_days k) / 365.25)
             \<le> (1 + inflation_rate p) powr (real (month_end_days (Suc k)) / 365.25)"
    using assms(1) by (intro powr_mono) simp_all
  then have "base * (1 + inflation_rate p) powr (real (month_end_days k) / 365.25)
             \<le> base * (1 + inflation_rate p) powr (real (month_end_days (Suc k)) / 365.25)"
    using assms(2) by (rule mult_left_mono)
  then show ?thesis
    using assms by (simp add: inflated_nth fle_def)
qed

text \<open>
  C9. On every path with \<open>inflation_rate \<ge> 0\<close>, the income column does not decrease
  from one month to the next when the income parameter is not negative, and likewise
  the expenses column when the expenses parameter is not negative.
\<close>

theorem cash_flows_monotone:
  assumes "generate_simulation p zs = Inr (df, tr)" "0 \<le> inflation_rate p"
    and "Suc i < length (Monthly_Income df)"
  shows "(0 \<le> monthly_income p \<longrightarrow> fle (Monthly_Income df ! i) (Monthly_Income df ! Suc i))
       \<and> (0 \<le> monthly_expenses p \<longrightarrow> fle (Monthly_Expenses df ! i) (Monthly_Expenses df ! Suc i))"
proof -
  obtain n where inc: "Monthly_Income df = inflated p (monthly_income p) (age_column p n)"
    and exp: "Monthly_Expenses df = inflated p (monthly_expenses p) (age_column p n)"
    using generate_simulation_columns [OF assms(1)] by blast
  have i: "Suc i < n" using assms(3) inc by simp
  show ?thesis
    unfolding inc exp using assms(2) i by (auto intro: inflated_mono)
qed

lemma default_month_index:
  assumes "num_months p = 492"
  shows "month_index (num_months p) = Inr 492"
  unfolding assms by (simp add: month_index_def)

theorem cash_flows_monotone_witness:
  "\<exists>df tr. generate_simulation get_default_params (\<lambda>k. 0) = Inr (df, tr)
     \<and> 0 \<le> inflation_rate get_default_params
     \<and> Suc 0 < length (Monthly_Income df)
     \<and> fle (Monthly_Income df ! 0) (Monthly_Income df ! Suc 0)
     \<and> fle (Monthly_Expenses df ! 0) (Monthly_Expenses df ! Suc 0)"
proof -
  have m: "month_index (num_months get_default_params) = Inr 492"
    by (rule default_month_index) (simp add: get_default_params_def num_months_def)
  have "\<exists>r. generate_simulation get_default_params (\<lambda>k. 0) = Inr r"
    unfolding generate_simulation_Inr_iff using m
    by (simp add: get_default_params_def)
  then obtain df tr where g: "generate_simulation get_default_params (\<lambda>k. 0) = Inr (df, tr)"
    by auto
  have infl: "0 \<le> inflation_rate get_default_params"
    by (simp add: get_default_params_def)
  have len: "Suc 0 < length (Monthly_Income df)"
    using generate_simulation_columns [OF g] m by auto
  have "0 \<le> monthly_income get_default_params" "0 \<le> monthly_expenses get_default_params"
    by (simp_all add: get_default_params_def)
  with cash_flows_monotone [OF g infl len] g infl len show ?thesis by blast
qed

theorem negative_income_counterexample:
  "\<exists>df tr. generate_simulation (get_default_params\<lparr>monthly_income := - 5000\<rparr>) (\<lambda>k. 0) = Inr (df, tr)
     \<and> 0 \<le> inflation_rate (get_default_params\<lparr>monthly_income := - 5000\<rparr>)
     \<and> \<not> fle (Monthly_Income df ! 0) (Monthly_Income df ! Suc 0)"
proof -
  let ?p = "get_default_params\<lparr>monthly_income := - 5000\<rparr>"
  have m: "month_index (num_months ?p) = Inr 492"
    by (rule default_month_index) (simp add: get_default_params_def num_months_def)
  have "\<exists>r. generate_simulation ?p (\<lambda>k. 0) = Inr r"
    unfolding generate_simulation_Inr_iff using m
    by (simp add: get_default_params_def)
  then obtain df tr where g: "generate_simulation ?p (\<lambda>k. 0) = Inr (df, tr)"
    by auto
  have infl: "0 \<le> inflation_rate ?p"
    by (simp add: get_default_params_def)
  have inc: "Monthly_Income df = inflated ?p (- 5000) (age_column ?p 492)"
    using generate_simulation_columns [OF g] m by auto
  have i0: "Monthly_Income df ! 0 = Some (- 5000)"
    unfolding inc using infl by (subst inflated_nth) (simp_all add: get_default_params_def)
  have i1: "Monthly_Income df ! Suc 0 = Some (- 5000 * (103 / 100) powr (112 / 1461))"
    unfolding inc using infl
    by (subst inflated_nth) (simp_all add: get_default_params_def days_in_month_def is_leap_year_def)
  have "(1::real) < (103 / 100) powr (112 / 1461)"
    by (rule gr_one_powr) simp_all
  then have "\<not> (103 / 100) powr (112 / 1461) \<le> (1::real)"
    by (simp only: not_le)
  then have "\<not> fle (Monthly_Income df ! 0) (Monthly_Income df ! Suc 0)"
    unfolding i0 i1 by (simp add: fle_def)
  with g infl show ?thesis by blast
qed

section \<open>Totality of a run\<close>








section \<open>Zero volatility and the worked example\<close>

lemma monthly_returns_zero_volatility:
  assumes "float_value (annual_volatility p) = 0"
  shows "monthly_returns p n zs =
         (if annual_return_rate p < - 1 then Inl TypeError
          else if signbit (annual_volatility p) then Inl ValueError
          else Inr (replicate n ((1 + annual_return_rate p) powr (1 / 12) - 1)))"
  using assms
  by (auto simp: monthly_returns_def np_random_normal_def monthly_expected_return_def
      monthly_volatility_def map_replicate_const)

lemma generate_simulation_cong:
  assumes "\<And>n. monthly_returns p n zs = monthly_returns p n zs'"
  shows "generate_simulation p zs = generate_simulation p zs'"
  by (cases "month_index (num_months p)") (simp_all add: generate_simulation_def Let_def assms)

text \<open>
  C7. With a volatility of zero (app.py has no crash configuration), whenever the
  returns are generated every one of them is \<open>(1 + annual_return_rate)\<close> to the power
  \<open>1/12\<close>, minus 1, and two runs with the same parameters give the same result,
  whatever variates the generator supplies.
\<close>

theorem zero_volatility_deterministic:
  assumes "float_value (annual_volatility p) = 0"
  shows "(\<forall>rets. monthly_returns p n zs = Inr rets \<longrightarrow>
            length rets = n \<and> (\<forall>i < n. rets ! i = (1 + annual_return_rate p) powr (1 / 12) - 1))
       \<and> generate_simulation p zs = generate_simulation p zs'"
proof
  show "\<forall>rets. monthly_returns p n zs = Inr rets \<longrightarrow>
            length rets = n \<and> (\<forall>i < n. rets ! i = (1 + annual_return_rate p) powr (1 / 12) - 1)"
    using assms by (auto simp: monthly_returns_zero_volatility split: if_splits)
  have "monthly_returns p m zs = monthly_returns p m zs'" for m
    using assms by (simp add: monthly_returns_zero_volatility)
  then show "generate_simulation p zs = generate_simulation p zs'"
    by (rule generate_simulation_cong)
qed

theorem zero_volatility_deterministic_witness:
  "float_value (annual_volatility (get_default_params\<lparr>annual_volatility := Float 0\<rparr>)) = 0
   \<and> monthly_returns (get_default_params\<lparr>annual_volatility := Float 0\<rparr>) 2 (\<lambda>k. 1)
       = Inr [(107 / 100) powr (1 / 12) - 1, (107 / 100) powr (1 / 12) - 1]
   \<and> generate_simulation (get_default_params\<lparr>annual_volatility := Float 0\<rparr>) (\<lambda>k. 1)
       = generate_simulation (get_default_params\<lparr>annual_volatility := Float 0\<rparr>) (\<lambda>k. real k)
   \<and> (\<exists>r. generate_simulation (get_default_params\<lparr>annual_volatility := Float 0\<rparr>) (\<lambda>k. 1) = Inr r)"
proof -
  let ?p = "get_default_params\<lparr>annual_volatility := Float 0\<rparr>"
  have v: "float_value (annual_volatility ?p) = 0" by simp
  have r: "monthly_returns ?p 2 (\<lambda>k. 1)
           = Inr [(107 / 100) powr (1 / 12) - 1, (107 / 100) powr (1 / 12) - 1]"
    by (simp add: monthly_returns_zero_volatility get_default_params_def numeral_2_eq_2)
  have m: "month_index (num_months ?p) = Inr 492"
    by (rule default_month_index) (simp add: get_default_params_def num_months_def)
  have "\<exists>r. generate_simulation ?p (\<lambda>k. 1) = Inr r"
    unfolding generate_simulation_Inr_iff using m by (simp add: get_default_params_def)
  with zero_volatility_deterministic [OF v, of 2 "\<lambda>k. 1" "\<lambda>k. real k"] v r
  show ?thesis by simp
qed

lemma monthly_rate_is_not_a_twelfth:
  "(1 + 7 / 100) powr (1 / 12) - 1 \<noteq> (7 / 100 / 12 :: real)"
proof
  define x :: real where "x = (107 / 100) powr (1 / 12)"
  assume "(1 + 7 / 100) powr (1 / 12) - 1 = (7 / 100 / 12 :: real)"
  then have "x = 1207 / 1200" unfolding x_def by simp
  then have "x ^ 12 = (1207 / 1200) ^ 12" by (rule arg_cong)
  moreover have "x ^ 12 = 107 / 100"
    unfolding x_def by (simp add: powr_realpow [symmetric] powr_powr)
  ultimately have "(107 / 100 :: real) = (1207 / 1200) ^ 12" by simp
  moreover have "(107 / 100 :: real) \<noteq> (1207 / 1200) ^ 12"
    by (simp add: power_divide divide_simps)
  ultimately show False by contradiction
qed

lemma np_power_one [simp]: "np_power 1 y = Some 1"
  by (simp add: np_power_def)

lemma inflated_no_inflation:
  assumes "inflation_rate p = 0"
  shows "inflated p base ages = map (\<lambda>a. Some base) ages"
  using assms by (simp add: inflated_def)

lemma spec_rule_value_linear:
  assumes "\<forall>k \<le> i. investment ! k = Some c \<and> rets ! k = 0" "0 \<le> init" "0 \<le> c"
  shows "spec_rule_value init investment rets i = Some (init + c * (real i + 1))"
  using assms(1)
proof (induction i)
  case 0
  then show ?case using assms(2,3) by (simp add: spec_update_rule_def)
next
  case (Suc i)
  then have "spec_rule_value init investment rets i = Some (init + c * (real i + 1))" by simp
  moreover have "investment ! Suc i = Some c" "rets ! Suc i = 0" using Suc.prems by simp_all
  moreover have "0 \<le> init + c * (real i + 1) + c" using assms(2,3) by simp
  ultimately show ?case by (simp add: spec_update_rule_def algebra_simps)
qed

lemma example_generate_simulation:
  "\<exists>df tr. generate_simulation example_params zs = Inr (df, tr)
     \<and> Portfolio_Value df = map (\<lambda>i. Some (50000 + 1500 * (real i + 1))) [0..<24]"
proof -
  let ?inv = "map (\<lambda>k. Some (1500::real)) [0..<24::nat]"
  let ?rets = "replicate 24 (0::real)"
  have n: "month_index (num_months example_params) = Inr 24"
    by (simp add: example_params_def num_months_def month_index_def)
  have rets: "monthly_returns example_params 24 zs = Inr ?rets"
    by (simp add: monthly_returns_zero_volatility example_params_def)
  have infl: "inflation_rate example_params = 0" by (simp add: example_params_def)
  have inv: "map (\<lambda>(a, b). fsub a b)
               (zip (inflated example_params (monthly_income example_params) (age_column example_params 24))
                    (inflated example_params (monthly_expenses example_params) (age_column example_params 24)))
             = ?inv"
    unfolding inflated_no_inflation [OF infl]
    by (rule nth_equalityI) (simp_all add: age_column_def example_params_def)
  have rv: "spec_rule_value 50000 ?inv ?rets i = Some (50000 + 1500 * (real i + 1))" if "i < 24" for i
    using that by (intro spec_rule_value_linear) simp_all
  have pv: "portfolio_values 50000 ?inv ?rets = map (\<lambda>i. Some (50000 + 1500 * (real i + 1))) [0..<24]"
    by (rule nth_equalityI) (simp_all only: portfolio_values_eq length_map nth_map rv length_upt nth_upt
          add_0 diff_zero)
  have "initial_investment example_params = 50000" by (simp add: example_params_def)
  then show ?thesis
    using generate_simulation_Inr [OF n rets] inv pv by simp
qed

text \<open>
  C8. The worked example: starting age 24, retirement age 26, income 5000, expenses
  3500, no inflation, no return, no volatility and 50000 invested give a path of 24
  months with portfolio value \<open>50000 + 1500 * (i + 1)\<close> in month \<open>i\<close>: 51500, 53000,
  and 86000 in month 23.
\<close>

theorem example_path:
  "\<exists>df tr. generate_simulation example_params zs = Inr (df, tr)
     \<and> length (Portfolio_Value df) = 24
     \<and> Portfolio_Value df = map (\<lambda>i. Some (50000 + 1500 * (real i + 1))) [0..<24]
     \<and> Portfolio_Value df ! 0 = Some 51500
     \<and> Portfolio_Value df ! 1 = Some 53000
     \<and> Portfolio_Value df ! 23 = Some 86000"
proof -
  obtain df tr where g: "generate_simulation example_params zs = Inr (df, tr)"
    and pv: "Portfolio_Value df = map (\<lambda>i. Some (50000 + 1500 * (real i + 1))) [0..<24]"
    using example_generate_simulation by blast
  have "length (Portfolio_Value df) = 24" "Portfolio_Value df ! 0 = Some 51500"
    "Portfolio_Value df ! 1 = Some 53000" "Portfolio_Value df ! 23 = Some 86000"
    unfolding pv by simp_all
  with g pv show ?thesis by blast
qed

section \<open>Negative balances\<close>

lemma spec_update_rule_negative:
  assumes "b < 0" "c \<le> 0"
  shows "spec_update_rule (Some b) (Some c) r = Some ((b + c) * (1 + 0.05 / 12))"
    and "(b + c) * (1 + 0.05 / 12) < b + c" and "b + c < 0"
proof -
  show neg: "b + c < 0" using assms by simp
  then show "spec_update_rule (Some b) (Some c) r = Some ((b + c) * (1 + 0.05 / 12))"
    by (simp add: spec_update_rule_def)
  have "(b + c) * (1 + 0.05 / 12) = (b + c) + (b + c) * (0.05 / 12)"
    by (simp add: algebra_simps)
  moreover have "(b + c) * (0.05 / 12) < 0"
    using neg by (simp add: mult_less_0_iff)
  ultimately show "(b + c) * (1 + 0.05 / 12) < b + c" by simp
qed

lemma spec_update_rule_negative_step:
  assumes "b < 0" "c \<le> 0"
  shows "\<exists>pre. fadd (Some b) (Some c) = Some pre \<and> pre < 0
           \<and> spec_update_rule (Some b) (Some c) r = Some (pre * (1 + 0.05 / 12))
           \<and> pre * (1 + 0.05 / 12) < pre"
proof (intro exI conjI)
  show "fadd (Some b) (Some c) = Some (b + c)" by simp
  show "b + c < 0" by (rule spec_update_rule_negative(3) [OF assms])
  show "spec_update_rule (Some b) (Some c) r = Some ((b + c) * (1 + 0.05 / 12))"
    by (rule spec_update_rule_negative(1) [OF assms])
  show "(b + c) * (1 + 0.05 / 12) < b + c" by (rule spec_update_rule_negative(2) [OF assms])
qed

text \<open>
  C10. In app.py, if the balance before month \<open>i\<close> is negative and the net
  contributions of the months \<open>i\<close> to \<open>j\<close> are all at most 0, then in month \<open>j\<close> the
  balance after the contribution is negative, the flat rate is applied, and the new
  portfolio value is that balance times \<open>1 + 0.05/12\<close>, which is strictly below it.
  With \<open>j = i\<close> this is the single monthly step.
\<close>

theorem negative_balance_never_recovers:
  assumes "i \<le> j" "j < length investment"
    and "(if i = 0 then Some init else portfolio_values init investment rets ! (i - 1)) = Some b"
    and "b < 0"
    and "\<forall>k. i \<le> k \<and> k \<le> j \<longrightarrow> (\<exists>c. investment ! k = Some c \<and> c \<le> 0)"
  shows "\<exists>pre. fadd (if j = 0 then Some init else portfolio_values init investment rets ! (j - 1))
                  (investment ! j) = Some pre
           \<and> pre < 0
           \<and> portfolio_values init investment rets ! j = Some (pre * (1 + 0.05 / 12))
           \<and> pre * (1 + 0.05 / 12) < pre"
  using assms(1,2,5)
proof (induction j rule: dec_induct)
  case base
  obtain c where c: "investment ! i = Some c" "c \<le> 0" using base by auto
  have "portfolio_values init investment rets ! i
        = spec_update_rule (if i = 0 then Some init else portfolio_values init investment rets ! (i - 1))
            (investment ! i) (rets ! i)"
  proof (cases i)
    case 0
    then show ?thesis using base by (simp add: portfolio_values_nth)
  next
    case (Suc m)
    then have "m < length investment" using base by simp
    then show ?thesis using base Suc by (simp add: portfolio_values_nth)
  qed
  then have pv: "portfolio_values init investment rets ! i = spec_update_rule (Some b) (Some c) (rets ! i)"
    unfolding assms(3) c(1) .
  show ?case
    unfolding assms(3) c(1) pv by (rule spec_update_rule_negative_step [OF assms(4) c(2)])
next
  case (step j)
  have "j < length investment" using step.prems(1) by simp
  moreover have "\<forall>k. i \<le> k \<and> k \<le> j \<longrightarrow> (\<exists>c. investment ! k = Some c \<and> c \<le> 0)"
    using step.prems(2) by simp
  ultimately obtain pre where pre: "pre < 0"
      "portfolio_values init investment rets ! j = Some (pre * (1 + 0.05 / 12))"
      "pre * (1 + 0.05 / 12) < pre"
    using step.IH by blast
  let ?b = "pre * (1 + 0.05 / 12)"
  have b: "?b < 0" using pre(1,3) by (rule less_trans [rotated])
  have "i \<le> Suc j" using step.hyps(1) by simp
  then obtain c where c: "investment ! Suc j = Some c" "c \<le> 0" using step.prems(2) by blast
  have prior: "(if Suc j = 0 then Some init else portfolio_values init investment rets ! (Suc j - 1))
               = Some ?b"
    using pre(2) by simp
  have "portfolio_values init investment rets ! Suc j
        = spec_update_rule (portfolio_values init investment rets ! j) (investment ! Suc j) (rets ! Suc j)"
    using step.prems(1) by (simp add: portfolio_values_nth)
  then have pv: "portfolio_values init investment rets ! Suc j
                 = spec_update_rule (Some ?b) (Some c) (rets ! Suc j)"
    unfolding pre(2) c(1) .
  show ?case
    unfolding prior c(1) pv by (rule spec_update_rule_negative_step [OF b c(2)])
qed

theorem negative_balance_never_recovers_witness:
  "(0::nat) \<le> 1 \<and> (1::nat) < length [Some (- 100), Some (0::real)]
   \<and> (- 60 :: real) < 0
   \<and> portfolio_values (- 60) [Some (- 100), Some 0] [1 / 10, 1 / 10] ! 0 = Some (- 160 * (1 + 0.05 / 12))
   \<and> portfolio_values (- 60) [Some (- 100), Some 0] [1 / 10, 1 / 10] ! 1
       = Some (- 160 * (1 + 0.05 / 12) * (1 + 0.05 / 12))
   \<and> (- 160 * (1 + 0.05 / 12) * (1 + 0.05 / 12) :: real) < - 160 * (1 + 0.05 / 12)"
  using negative_balance_never_recovers [of 0 1 "[Some (- 100), Some 0]" "- 60" "[1 / 10, 1 / 10]" "- 60"]
  by (simp add: portfolio_values_nth spec_update_rule_def)

section \<open>Crash injection\<close>

lemma recovery_loop_length [simp]:
  "length (fst (recovery_loop ws mer mv i rm js st)) = length (fst st)"
  by (induction ws mer mv i rm js st rule: recovery_loop.induct) simp_all

lemma recovery_loop_untouched:
  assumes "\<forall>j \<in> set js. k \<noteq> i + j"
  shows "fst (recovery_loop ws mer mv i rm js st) ! k = fst st ! k"
  using assms
  by (induction ws mer mv i rm js st rule: recovery_loop.induct) simp_all

lemma crash_month_length [simp]:
  "length (fst (crash_month ws cfg mer mv crash_months i st)) = length (fst st)"
  by (simp add: crash_month_def Let_def)

lemma crash_month_outside:
  assumes "0 < crash_recovery_months cfg" "k < i \<or> i + crash_recovery_months cfg \<le> k"
  shows "fst (crash_month ws cfg mer mv crash_months i st) ! k = fst st ! k"
proof (cases "crash_months ! i")
  case False
  then show ?thesis by (simp add: crash_month_def)
next
  case True
  let ?rets = "(fst st)[i := crash_return cfg]"
  let ?rm = "min (crash_recovery_months cfg) (length ?rets - i)"
  have ki: "k \<noteq> i" using assms by auto
  have "\<forall>j \<in> set [1..<?rm]. k \<noteq> i + j" using assms(2) by auto
  then have "fst (recovery_loop ws mer mv i ?rm [1..<?rm] (?rets, snd st)) ! k = fst (?rets, snd st) ! k"
    by (rule recovery_loop_untouched)
  then show ?thesis using True ki by (simp add: crash_month_def Let_def)
qed

lemma crash_month_before:
  assumes "k < i"
  shows "fst (crash_month ws cfg mer mv crash_months i st) ! k = fst st ! k"
proof (cases "crash_months ! i")
  case False
  then show ?thesis by (simp add: crash_month_def)
next
  case True
  let ?rets = "(fst st)[i := crash_return cfg]"
  let ?rm = "min (crash_recovery_months cfg) (length ?rets - i)"
  have "\<forall>j \<in> set [1..<?rm]. k \<noteq> i + j" using assms by auto
  then have "fst (recovery_loop ws mer mv i ?rm [1..<?rm] (?rets, snd st)) ! k = fst (?rets, snd st) ! k"
    by (rule recovery_loop_untouched)
  then show ?thesis using True assms by (simp add: crash_month_def Let_def)
qed

lemma crash_month_at:
  assumes "crash_months ! i" "i < length (fst st)"
  shows "fst (crash_month ws cfg mer mv crash_months i st) ! i = crash_return cfg"
proof -
  let ?rets = "(fst st)[i := crash_return cfg]"
  let ?rm = "min (crash_recovery_months cfg) (length ?rets - i)"
  have "\<forall>j \<in> set [1..<?rm]. i \<noteq> i + j" by auto
  then have "fst (recovery_loop ws mer mv i ?rm [1..<?rm] (?rets, snd st)) ! i = fst (?rets, snd st) ! i"
    by (rule recovery_loop_untouched)
  then show ?thesis using assms by (simp add: crash_month_def Let_def)
qed

lemma crash_loop_length [simp]:
  "length (fst (crash_loop ws cfg mer mv crash_months idx st)) = length (fst st)"
  by (induction idx arbitrary: st) simp_all

lemma crash_loop_before:
  assumes "\<forall>i \<in> set idx. k < i"
  shows "fst (crash_loop ws cfg mer mv crash_months idx st) ! k = fst st ! k"
  using assms
proof (induction idx arbitrary: st)
  case Nil
  show ?case by simp
next
  case (Cons i rest)
  have "fst (crash_loop ws cfg mer mv crash_months rest (crash_month ws cfg mer mv crash_months i st)) ! k
        = fst (crash_month ws cfg mer mv crash_months i st) ! k"
    using Cons.prems by (intro Cons.IH) simp
  also have "\<dots> = fst st ! k"
    using Cons.prems by (intro crash_month_before) simp
  finally show ?case by simp
qed

lemma crash_loop_at:
  assumes "sorted_wrt (<) idx" "i \<in> set idx" "crash_months ! i" "i < length (fst st)"
  shows "fst (crash_loop ws cfg mer mv crash_months idx st) ! i = crash_return cfg"
  using assms(1,2,4)
proof (induction idx arbitrary: st)
  case Nil
  then show ?case by simp
next
  case (Cons m rest)
  let ?st = "crash_month ws cfg mer mv crash_months m st"
  show ?case
  proof (cases "i = m")
    case True
    have "\<forall>j \<in> set rest. i < j" using Cons.prems(1) True by simp
    then have "fst (crash_loop ws cfg mer mv crash_months rest ?st) ! i = fst ?st ! i"
      by (rule crash_loop_before)
    also have "\<dots> = crash_return cfg"
      unfolding True using assms(3) Cons.prems(3) True by (intro crash_month_at) simp_all
    finally show ?thesis by simp
  next
    case False
    then have "i \<in> set rest" using Cons.prems(2) by simp
    moreover have "sorted_wrt (<) rest" using Cons.prems(1) by simp
    moreover have "i < length (fst ?st)" using Cons.prems(3) by simp
    ultimately have "fst (crash_loop ws cfg mer mv crash_months rest ?st) ! i = crash_return cfg"
      by (intro Cons.IH)
    then show ?thesis by simp
  qed
qed

text \<open>
  C3. After the crash loop of plan.py has processed all months in increasing order,
  the return of every month marked as a crash month is \<open>crash_return\<close>, also when the
  month lies in the recovery window of an earlier crash. Processing a crash at month
  \<open>i\<close> changes no month before \<open>i\<close> and no month from \<open>i + crash_recovery_months\<close>
  on, and does not change the length of the series. The recovery length is positive,
  as the 12 of the script is.
\<close>

theorem crash_injection:
  assumes "0 < crash_recovery_months cfg"
  shows "(\<forall>i < length rets. crash_months ! i \<longrightarrow>
            fst (crash_loop ws cfg mer mv crash_months [0..<length rets] (rets, used)) ! i
              = crash_return cfg)
       \<and> (\<forall>i k. k < i \<or> i + crash_recovery_months cfg \<le> k \<longrightarrow>
            fst (crash_month ws cfg mer mv crash_months i (rets, used)) ! k = rets ! k)
       \<and> (\<forall>i. length (fst (crash_month ws cfg mer mv crash_months i (rets, used))) = length rets)"
proof (intro conjI allI impI)
  fix i assume "i < length rets" "crash_months ! i"
  then show "fst (crash_loop ws cfg mer mv crash_months [0..<length rets] (rets, used)) ! i
             = crash_return cfg"
    by (intro crash_loop_at) simp_all
next
  fix i k assume "k < i \<or> i + crash_recovery_months cfg \<le> k"
  then show "fst (crash_month ws cfg mer mv crash_months i (rets, used)) ! k = rets ! k"
    using crash_month_outside [OF assms, of k i ws mer mv crash_months "(rets, used)"] by simp
next
  fix i show "length (fst (crash_month ws cfg mer mv crash_months i (rets, used))) = length rets"
    by simp
qed

theorem crash_injection_witness:
  "0 < crash_recovery_months plan_crash_config
   \<and> (1::nat) < length [0, 0, 0, 0 :: real] \<and> [True, True, False, False] ! 1
   \<and> fst (crash_loop (\<lambda>k. 0) plan_crash_config (1 / 100) 0 [True, True, False, False]
             [0..<length [0, 0, 0, 0 :: real]] ([0, 0, 0, 0], 0)) ! 1
       = crash_return plan_crash_config
   \<and> fst (crash_month (\<lambda>k. 0) plan_crash_config (1 / 100) 0 [True, True, False, False] 1
             ([0, 0, 0, 0], 0)) ! 0 = 0"
proof -
  have h: "0 < crash_recovery_months plan_crash_config"
    by (simp add: plan_crash_config_def)
  note t = crash_injection [OF h, of "[0, 0, 0, 0]" "[True, True, False, False]" "\<lambda>k. 0" "1 / 100" 0 0]
  have a: "fst (crash_loop (\<lambda>k. 0) plan_crash_config (1 / 100) 0 [True, True, False, False]
             [0..<length [0, 0, 0, 0 :: real]] ([0, 0, 0, 0], 0)) ! 1
           = crash_return plan_crash_config"
    using t by simp
  have b: "fst (crash_month (\<lambda>k. 0) plan_crash_config (1 / 100) 0 [True, True, False, False] 1
             ([0, 0, 0, 0], 0)) ! 0 = 0"
    using t by simp
  show ?thesis using h a b by simp
qed

lemma crash_overlap_example:
  "fst (crash_loop (\<lambda>k. 0) \<lparr>crash_probability = 1, crash_return = - 1 / 5, crash_recovery_months = 3\<rparr>
          (3 / 100) 0 [True, True, False, False] [0..<4] ([7, 7, 7, 7], 0))
   = [- 1 / 5, - 1 / 5, 1 / 100, 2 / 100]"
  by (simp add: crash_month_def upt_rec Let_def)

end
